(* ===== verification/Prelude.thy ===== *)
theory Prelude
  imports Complex_Main "HOL-Library.Word"
begin

text \<open>
  Shared vocabulary of the development. JavaScript strings are sequences of
  UTF-16 code units, so a string of the program is a list of \<open>16 word\<close>s
  (\<open>jstr\<close>); the literals of \<^verbatim>\<open>Chatbot.jsx\<close> are ASCII and are written
  as Isabelle strings converted by \<open>js\<close>. The collection \<open>chat_defs\<close>
  gathers the unfolding rules of the component's operations, so that the
  component proofs say \<open>simp add: chat_defs\<close>; \<open>world_defs\<close> those of the
  lifecycle events, with which \<open>simp\<close> evaluates a concrete run.
\<close>

named_theorems chat_defs "unfolding rules of the Chatbot operations"
named_theorems world_defs "unfolding rules of the lifecycle events, for evaluating runs"

type_synonym u16 = "16 word"
type_synonym jstr = "u16 list"

definition js :: "string \<Rightarrow> jstr" where
  "js s = map (\<lambda>c. of_nat (of_char c)) s"

subsection \<open>String literals\<close>

lemma unat_of_char_u16 [simp]: "unat (of_nat (of_char c) :: u16) = of_char c"
proof -
  have "of_char c < (256::nat)" by (rule nat_of_char_less_256)
  then have "of_char c < (2::nat) ^ LENGTH(16)" by (simp add: less_trans [of _ 256])
  then show ?thesis by (simp add: unat_of_nat)
qed

lemma js_Nil [simp]: "js [] = []"
  and js_Cons [simp]: "js (c # s) = of_nat (of_char c) # js s"
  and js_append [simp]: "js (s @ t) = js s @ js t"
  and length_js [simp]: "length (js s) = length s"
  by (simp_all add: js_def)

lemma js_code_unit_small: "x \<in> set (js s) \<Longrightarrow> unat x < 256"
  by (auto simp: js_def)

lemma inj_js: "inj js"
proof (rule injI)
  fix s t assume "js s = js t"
  then have "map (\<lambda>x. unat x) (js s) = map (\<lambda>x. unat x) (js t)" by simp
  then have "map of_char s = (map of_char t :: nat list)"
    by (simp add: js_def comp_def)
  then show "s = t"
    by (metis inj_map_eq_map inj_of_char)
qed

lemma js_eq_iff [simp]: "js s = js t \<longleftrightarrow> s = t"
  using inj_js by (auto dest: injD)

lemma js_eq_Nil_iff [simp]: "js s = [] \<longleftrightarrow> s = []"
  by (simp add: js_def)

subsection \<open>Lists\<close>

text \<open>Facts on folds and filters shared by the lifecycle and render proofs.\<close>

lemma fold_invariant_proj:
  "(\<And>x y. g (f x y) = g y) \<Longrightarrow> g (fold f xs y) = g y"
  by (induction xs arbitrary: y) auto

lemma length_filter_conj_le:
  "length (filter (\<lambda>x. P x \<and> Q x) xs) \<le> length (filter Q xs)"
  by (induction xs) auto

end
