(* ===== verification/JsString.thy ===== *)
theory JsString
  imports Prelude
begin

text \<open>
  The string builtin that \<^verbatim>\<open>Chatbot.jsx\<close> calls, \<^verbatim>\<open>String.prototype.trim\<close>
  (lines 19 and 34), modelled from ECMAScript (TrimString): it removes the
  leading and trailing code units that are WhiteSpace or LineTerminator.
  \<open>js_blank\<close> is the test \<^verbatim>\<open>!s.trim()\<close> of line 34; line 20 tests the
  trimmed selection the same way.
\<close>

text \<open>
  WhiteSpace (TAB, VT, FF, SP, NBSP, ZWNBSP and the Zs category) and
  LineTerminator (LF, CR, LS, PS). All of them lie in the basic multilingual
  plane outside the surrogate range, so testing single code units is the same
  as testing code points.
\<close>

definition is_js_ws :: "u16 \<Rightarrow> bool" where
  "is_js_ws c \<longleftrightarrow>
     c = 0x09 \<or> c = 0x0A \<or> c = 0x0B \<or> c = 0x0C \<or> c = 0x0D \<or> c = 0x20 \<or>
     c = 0xA0 \<or> c = 0x1680 \<or> (0x2000 \<le> c \<and> c \<le> 0x200A) \<or> c = 0x2028 \<or>
     c = 0x2029 \<or> c = 0x202F \<or> c = 0x205F \<or> c = 0x3000 \<or> c = 0xFEFF"

definition js_trim :: "jstr \<Rightarrow> jstr" where
  "js_trim s = rev (dropWhile is_js_ws (rev (dropWhile is_js_ws s)))"

text \<open>Whether a string is blank: \<open>!query.trim()\<close> (line 34).\<close>

definition js_blank :: "jstr \<Rightarrow> bool" where
  "js_blank s \<longleftrightarrow> js_trim s = []"

end
