(* ===== verification/JsValue.thy ===== *)
theory JsValue
  imports Prelude JsString
begin

text \<open>
  The JavaScript values the component handles: what \<^verbatim>\<open>response.json()\<close>
  can produce (the JSON values), \<^verbatim>\<open>undefined\<close>, and the errors the code
  throws or catches. Member access \<^verbatim>\<open>data.final_answer\<close> and the
  \<^verbatim>\<open>||\<close> operator are modelled as ECMAScript defines them: member
  access on \<^verbatim>\<open>null\<close> or \<^verbatim>\<open>undefined\<close> throws a TypeError, and
  \<^verbatim>\<open>a || b\<close> is \<open>a\<close> when \<open>a\<close> is truthy (ToBoolean), else \<open>b\<close>.
  Numbers are the values JSON.parse produced, represented by the rational
  they denote.
\<close>

datatype js_value =
    JUndef
  | JNull
  | JBool bool
  | JNum rat
  | JStr jstr
  | JArr "js_value list"
  | JObj "(jstr \<times> js_value) list"

datatype js_error =
    Error jstr
  | TypeError jstr
  | SyntaxError jstr

primrec err_message :: "js_error \<Rightarrow> jstr" where
  "err_message (Error m) = m"
| "err_message (TypeError m) = m"
| "err_message (SyntaxError m) = m"

text \<open>ToBoolean.\<close>

primrec truthy :: "js_value \<Rightarrow> bool" where
  "truthy JUndef = False"
| "truthy JNull = False"
| "truthy (JBool b) = b"
| "truthy (JNum r) = (r \<noteq> 0)"
| "truthy (JStr s) = (s \<noteq> [])"
| "truthy (JArr vs) = True"
| "truthy (JObj kvs) = True"

text \<open>\<^verbatim>\<open>a || b\<close> (b is evaluated only when a is falsy; here b is a literal).\<close>

definition js_or :: "js_value \<Rightarrow> js_value \<Rightarrow> js_value" where
  "js_or a b = (if truthy a then a else b)"

text \<open>
  Member access \<open>v.k\<close> for a key \<open>k\<close> that is not an array index and names
  no property of the built-in prototypes (as \<^verbatim>\<open>final_answer\<close>,
  \<^verbatim>\<open>sources\<close>), and for \<^verbatim>\<open>length\<close>. JSON.parse keeps the last of
  duplicate keys, so an object is its list of members in source order and
  the lookup takes the last binding. The TypeError message is V8's.
\<close>

definition key_length :: jstr where
  "key_length = js ''length''"

definition type_error_read :: "jstr \<Rightarrow> jstr \<Rightarrow> js_error" where
  "type_error_read what k =
     TypeError (js ''Cannot read properties of '' @ what @ js '' (reading '' @ [0x27] @ k @ [0x27, 0x29])"

fun get_prop :: "js_value \<Rightarrow> jstr \<Rightarrow> js_error + js_value" where
  "get_prop JUndef k = Inl (type_error_read (js ''undefined'') k)"
| "get_prop JNull k = Inl (type_error_read (js ''null'') k)"
| "get_prop (JObj kvs) k = Inr (case map_of (rev kvs) k of None \<Rightarrow> JUndef | Some v \<Rightarrow> v)"
| "get_prop (JArr vs) k = Inr (if k = key_length then JNum (of_nat (length vs)) else JUndef)"
| "get_prop (JStr s) k = Inr (if k = key_length then JNum (of_nat (length s)) else JUndef)"
| "get_prop (JBool b) k = Inr JUndef"
| "get_prop (JNum r) k = Inr JUndef"

subsection \<open>The response of fetch\<close>

text \<open>
  \<^verbatim>\<open>fetch\<close> either rejects (a TypeError, e.g. connection refused) or
  resolves to a Response. \<^verbatim>\<open>Response.status\<close> is an unsigned short and
  \<^verbatim>\<open>Response.ok\<close> holds for a status in 200..299. What
  \<^verbatim>\<open>response.json()\<close> settles to is the parsed body or the error of
  reading or parsing it (a SyntaxError for a body that is not JSON).
\<close>

record response =
  status :: u16
  json_result :: "js_error + js_value"

definition resp_ok :: "response \<Rightarrow> bool" where
  "resp_ok r \<longleftrightarrow> 200 \<le> status r \<and> status r \<le> 299"

datatype fetch_outcome =
    Rejected js_error
  | Resolved response

subsection \<open>Lemmas\<close>

lemma js_or_truthy [simp]: "truthy a \<Longrightarrow> js_or a b = a"
  and js_or_falsy [simp]: "\<not> truthy a \<Longrightarrow> js_or a b = b"
  by (simp_all add: js_or_def)

lemma get_prop_Inl_iff:
  "(\<exists>e. get_prop v k = Inl e) \<longleftrightarrow> v = JUndef \<or> v = JNull"
  by (cases v) auto

lemma get_prop_object_absent:
  "k \<notin> fst ` set kvs \<Longrightarrow> get_prop (JObj kvs) k = Inr JUndef"
proof -
  assume "k \<notin> fst ` set kvs"
  then have "map_of (rev kvs) k = None" by (simp add: map_of_eq_None_iff)
  then show ?thesis by simp
qed

lemma get_prop_object_last:
  "get_prop (JObj (kvs @ [(k, v)])) k = Inr v"
  by simp

lemma truthy_JStr_iff [simp]: "truthy (JStr s) \<longleftrightarrow> s \<noteq> []"
  by simp

lemma resp_ok_bounds: "resp_ok r \<Longrightarrow> 200 \<le> unat (status r) \<and> unat (status r) \<le> 299"
  by (simp add: resp_ok_def word_le_nat_alt)

end
