(* ===== verification/JsonText.thy ===== *)
theory JsonText
  imports Prelude
begin

text \<open>
  The request body of \<^verbatim>\<open>sendQuery\<close> is \<^verbatim>\<open>JSON.stringify({ query })\<close>
  (\<^verbatim>\<open>Chatbot.jsx\<close> line 47). \<open>QuoteJSONString\<close> follows ECMAScript's
  abstract operation of that name (ES2019 and later): the two-character
  escapes, \<^verbatim>\<open>\u\<close> escapes with four lowercase hex digits for the other
  control characters and for lone surrogates, and every other code unit
  (well-formed surrogate pairs included) copied. \<open>json_unquote\<close> is the
  receiving side, the string grammar of RFC 8259 as the endpoint's JSON
  parser reads it; the roundtrip lemma says the endpoint recovers the query
  exactly, whatever code units it holds.
\<close>

unbundle bit_operations_syntax

definition is_high_surrogate :: "u16 \<Rightarrow> bool" where
  "is_high_surrogate c \<longleftrightarrow> 0xD800 \<le> c \<and> c \<le> 0xDBFF"

definition is_low_surrogate :: "u16 \<Rightarrow> bool" where
  "is_low_surrogate c \<longleftrightarrow> 0xDC00 \<le> c \<and> c \<le> 0xDFFF"

definition hex_digit :: "u16 \<Rightarrow> u16" where
  "hex_digit n = (if n < 10 then 0x30 + n else 0x57 + n)"

definition hex4 :: "u16 \<Rightarrow> jstr" where
  "hex4 c = map (\<lambda>k. hex_digit (drop_bit k c AND 0xF)) [12, 8, 4, 0]"

definition unicode_escape :: "u16 \<Rightarrow> jstr" where
  "unicode_escape c = [0x5C, 0x75] @ hex4 c"

definition quote_unit :: "u16 \<Rightarrow> jstr" where
  "quote_unit c =
     (if c = 0x08 then [0x5C, 0x62]
      else if c = 0x09 then [0x5C, 0x74]
      else if c = 0x0A then [0x5C, 0x6E]
      else if c = 0x0C then [0x5C, 0x66]
      else if c = 0x0D then [0x5C, 0x72]
      else if c = 0x22 then [0x5C, 0x22]
      else if c = 0x5C then [0x5C, 0x5C]
      else if c < 0x20 \<or> is_high_surrogate c \<or> is_low_surrogate c then unicode_escape c
      else [c])"

fun quote_units :: "jstr \<Rightarrow> jstr" where
  "quote_units [] = []"
| "quote_units [c] = quote_unit c"
| "quote_units (c # d # r) =
     (if is_high_surrogate c \<and> is_low_surrogate d then c # d # quote_units r
      else quote_unit c @ quote_units (d # r))"

definition QuoteJSONString :: "jstr \<Rightarrow> jstr" where
  "QuoteJSONString s = [0x22] @ quote_units s @ [0x22]"

text \<open>\<^verbatim>\<open>JSON.stringify({ query })\<close>: one member, no whitespace.\<close>

definition stringify_query :: "jstr \<Rightarrow> jstr" where
  "stringify_query q = js ''{'' @ QuoteJSONString (js ''query'') @ js '':'' @ QuoteJSONString q @ js ''}''"

subsection \<open>The receiving side\<close>

text \<open>
  The string grammar of RFC 8259 read at the level of UTF-16 code units: a
  literal code unit is one at or above U+0020 other than the quotation mark
  and the reverse solidus; an escape is one of the eight short forms or
  \<^verbatim>\<open>\u\<close> with four hex digits of either case. \<open>unquote_units\<close>
  reads the characters after the opening quotation mark up to the closing
  one and returns the string and the rest of the input.
\<close>

definition hex_value :: "u16 \<Rightarrow> u16 option" where
  "hex_value c =
     (if 0x30 \<le> c \<and> c \<le> 0x39 then Some (c - 0x30)
      else if 0x61 \<le> c \<and> c \<le> 0x66 then Some (c - 0x57)
      else if 0x41 \<le> c \<and> c \<le> 0x46 then Some (c - 0x37)
      else None)"

fun hex4_value :: "jstr \<Rightarrow> u16 option" where
  "hex4_value [a, b, c, d] =
     (case (hex_value a, hex_value b, hex_value c, hex_value d) of
        (Some x, Some y, Some z, Some v) \<Rightarrow> Some (push_bit 12 x OR push_bit 8 y OR push_bit 4 z OR v)
      | _ \<Rightarrow> None)"
| "hex4_value _ = None"

definition short_escape :: "u16 \<Rightarrow> u16 option" where
  "short_escape e =
     (if e = 0x22 then Some 0x22 else if e = 0x5C then Some 0x5C
      else if e = 0x2F then Some 0x2F else if e = 0x62 then Some 0x08
      else if e = 0x66 then Some 0x0C else if e = 0x6E then Some 0x0A
      else if e = 0x72 then Some 0x0D else if e = 0x74 then Some 0x09
      else None)"

fun unquote_units :: "jstr \<Rightarrow> (jstr \<times> jstr) option" where
  "unquote_units [] = None"
| "unquote_units (c # r) =
     (if c = 0x22 then Some ([], r)
      else if c = 0x5C then
        (case r of
           [] \<Rightarrow> None
         | e # r' \<Rightarrow>
             if e = 0x75 then
               (case hex4_value (take 4 r') of
                  None \<Rightarrow> None
                | Some u \<Rightarrow> map_option (\<lambda>(s, t). (u # s, t)) (unquote_units (drop 4 r')))
             else
               (case short_escape e of
                  None \<Rightarrow> None
                | Some u \<Rightarrow> map_option (\<lambda>(s, t). (u # s, t)) (unquote_units r')))
      else if c < 0x20 then None
      else map_option (\<lambda>(s, t). (c # s, t)) (unquote_units r))"

definition json_unquote :: "jstr \<Rightarrow> (jstr \<times> jstr) option" where
  "json_unquote s = (case s of [] \<Rightarrow> None | c # r \<Rightarrow> if c = 0x22 then unquote_units r else None)"

text \<open>
  The endpoint's reading of the request body: the object with the single
  member \<^verbatim>\<open>query\<close>, in the layout \<^verbatim>\<open>JSON.stringify\<close> produces.
\<close>

definition query_body_prefix :: jstr where
  "query_body_prefix = js ''{\"query\":''"

definition read_query_body :: "jstr \<Rightarrow> jstr option" where
  "read_query_body b =
     (if take (length query_body_prefix) b = query_body_prefix then
        (case json_unquote (drop (length query_body_prefix) b) of
           Some (q, rest) \<Rightarrow> if rest = js ''}'' then Some q else None
         | None \<Rightarrow> None)
      else None)"

subsection \<open>Hex digits\<close>

lemma nibble_cases: "(n::u16) < 16 \<Longrightarrow> n \<in> {0,1,2,3,4,5,6,7,8,9,10,11,12,13,14,15}"
proof -
  assume "n < 16"
  then have "unat n < 16" by (simp add: word_less_nat_alt)
  then have "unat n \<in> {0..<16}" by simp
  moreover have "{0..<16::nat} = {0,1,2,3,4,5,6,7,8,9,10,11,12,13,14,15}" by code_simp
  ultimately have "unat n \<in> {0,1,2,3,4,5,6,7,8,9,10,11,12,13,14,15}" by simp
  then show ?thesis by (auto simp: word_unat_eq_iff)
qed

lemma hex_value_hex_digit: "n < 16 \<Longrightarrow> hex_value (hex_digit n) = Some n"
  by (drule nibble_cases) (elim insertE emptyE; simp add: hex_value_def hex_digit_def)

lemma nibble_less_16: "drop_bit k c AND 0xF < (16::u16)"
proof -
  have "drop_bit k c AND 0xF \<le> (0xF::u16)" by (rule word_and_le1)
  then show ?thesis by (simp add: order_le_less_trans)
qed

lemma mask_4_u16: "(0xF::u16) = mask 4"
  by (simp add: mask_eq_exp_minus_1)

lemma nibbles_recompose:
  "push_bit 12 (drop_bit 12 c AND 0xF) OR push_bit 8 (drop_bit 8 c AND 0xF) OR
   push_bit 4 (drop_bit 4 c AND 0xF) OR (c AND 0xF) = (c::u16)"
proof (rule bit_eqI)
  fix n :: nat
  assume "possible_bit TYPE(16 word) n"
  then have "n < 16" by (simp add: possible_bit_def)
  then consider "n < 4" | "4 \<le> n \<and> n < 8" | "8 \<le> n \<and> n < 12" | "12 \<le> n \<and> n < 16"
    by linarith
  then show "bit (push_bit 12 (drop_bit 12 c AND 0xF) OR push_bit 8 (drop_bit 8 c AND 0xF) OR
      push_bit 4 (drop_bit 4 c AND 0xF) OR (c AND 0xF)) n = bit c n"
    by cases (auto simp: mask_4_u16 bit_simps)
qed

lemma length_hex4 [simp]: "length (hex4 c) = 4"
  by (simp add: hex4_def)

lemma hex_value_nibble [simp]:
  "hex_value (hex_digit (drop_bit k c AND 0xF)) = Some (drop_bit k c AND 0xF)"
  "hex_value (hex_digit (c AND 0xF)) = Some (c AND 0xF)"
  using hex_value_hex_digit [OF nibble_less_16, of k c] hex_value_hex_digit [OF nibble_less_16, of 0 c]
  by simp_all

lemma hex4_value_hex4: "hex4_value (hex4 c) = Some c"
proof -
  have "hex4 c = [hex_digit (drop_bit 12 c AND 0xF), hex_digit (drop_bit 8 c AND 0xF),
      hex_digit (drop_bit 4 c AND 0xF), hex_digit (c AND 0xF)]"
    by (simp add: hex4_def)
  then show ?thesis
    by (simp only: hex4_value.simps(1) hex_value_nibble prod.case option.case nibbles_recompose)
qed

subsection \<open>Quoting and reading back\<close>

lemma surrogate_not_special:
  "is_high_surrogate c \<or> is_low_surrogate c \<Longrightarrow> c \<noteq> 0x22 \<and> c \<noteq> 0x5C \<and> \<not> c < 0x20"
  by (auto simp: is_high_surrogate_def is_low_surrogate_def word_le_nat_alt word_less_nat_alt)

lemma unquote_literal:
  "c \<noteq> 0x22 \<Longrightarrow> c \<noteq> 0x5C \<Longrightarrow> \<not> c < 0x20 \<Longrightarrow>
   unquote_units (c # t) = map_option (\<lambda>(s, r). (c # s, r)) (unquote_units t)"
  by simp

lemma unquote_quote_unit:
  "unquote_units (quote_unit c @ t) = map_option (\<lambda>(s, r). (c # s, r)) (unquote_units t)"
proof -
  have esc: "unquote_units (unicode_escape c @ t) = map_option (\<lambda>(s, r). (c # s, r)) (unquote_units t)"
    by (simp add: unicode_escape_def hex4_value_hex4)
  show ?thesis
    unfolding quote_unit_def
    by (simp add: esc short_escape_def del: unquote_units.simps(2))
      (simp add: short_escape_def)
qed

lemma unquote_quote_units:
  "unquote_units (quote_units s @ 0x22 # rest) = Some (s, rest)"
proof (induction s rule: quote_units.induct)
  case 1
  then show ?case by simp
next
  case (2 c)
  then show ?case by (simp add: unquote_quote_unit)
next
  case (3 c d r)
  show ?case
  proof (cases "is_high_surrogate c \<and> is_low_surrogate d")
    case True
    then have "c \<noteq> 0x22 \<and> c \<noteq> 0x5C \<and> \<not> c < 0x20" "d \<noteq> 0x22 \<and> d \<noteq> 0x5C \<and> \<not> d < 0x20"
      using surrogate_not_special by blast+
    moreover have "quote_units (c # d # r) = c # d # quote_units r"
      by (simp only: quote_units.simps(3) if_P [OF True])
    ultimately show ?thesis using "3.IH"(1) [OF True] by (simp only: unquote_literal append_Cons) simp
  next
    case False
    have "quote_units (c # d # r) = quote_unit c @ quote_units (d # r)"
      by (simp only: quote_units.simps(3) if_not_P [OF False])
    then show ?thesis
      by (simp only: append_assoc unquote_quote_unit "3.IH"(2) [OF False]) simp
  qed
qed

lemma stringify_query_layout: "stringify_query q = query_body_prefix @ QuoteJSONString q @ js ''}''"
  by (simp add: stringify_query_def query_body_prefix_def QuoteJSONString_def quote_unit_def
      is_high_surrogate_def is_low_surrogate_def)

lemma read_query_body_stringify: "read_query_body (stringify_query q) = Some q"
  by (simp add: read_query_body_def stringify_query_layout json_unquote_def QuoteJSONString_def
      unquote_quote_units)

end
