(* ===== verification/JsonParse.thy ===== *)
theory JsonParse
  imports Prelude JsValue JsonText
begin

text \<open>
  \<^verbatim>\<open>response.json()\<close> (line 54): the body text read as JSON
  (ECMAScript \<^verbatim>\<open>JSON.parse\<close> on the ECMA-404 grammar). A lexer
  \<open>lex\<close> turns the text into tokens, string literals decoded by
  \<open>unquote_units\<close>, numbers by \<open>lex_number\<close>; \<open>parse_value\<close> and
  \<open>parse_after\<close> read the tokens with an explicit stack of open arrays and
  objects, as an iterative parser does. \<open>json_parse\<close> is \<open>None\<close> where
  \<^verbatim>\<open>JSON.parse\<close> throws its SyntaxError.
\<close>

datatype token = LBrace | RBrace | LBrack | RBrack | Colon | Comma
  | TStr jstr | TNum rat | TTrue | TFalse | TNull

definition is_json_ws :: "u16 \<Rightarrow> bool" where
  "is_json_ws c \<longleftrightarrow> c = 0x20 \<or> c = 0x09 \<or> c = 0x0A \<or> c = 0x0D"

definition is_digit :: "u16 \<Rightarrow> bool" where
  "is_digit c \<longleftrightarrow> 0x30 \<le> c \<and> c \<le> 0x39"

definition digits_value :: "jstr \<Rightarrow> nat" where
  "digits_value ds = foldl (\<lambda>n d. 10 * n + (unat d - 48)) 0 ds"

text \<open>The integer part: \<^verbatim>\<open>0\<close> or a non-zero digit and more digits.\<close>

definition lex_int :: "jstr \<Rightarrow> (jstr \<times> jstr) option" where
  "lex_int s =
     (case s of
        [] \<Rightarrow> None
      | c # r \<Rightarrow>
          if c = 0x30 then Some ([c], r)
          else if is_digit c then Some (takeWhile is_digit s, dropWhile is_digit s)
          else None)"

definition lex_frac :: "jstr \<Rightarrow> (jstr \<times> jstr) option" where
  "lex_frac s =
     (case s of
        c # r \<Rightarrow>
          if c = 0x2E then
            (if takeWhile is_digit r = [] then None
             else Some (takeWhile is_digit r, dropWhile is_digit r))
          else Some ([], s)
      | [] \<Rightarrow> Some ([], []))"

definition lex_exp :: "jstr \<Rightarrow> (int \<times> jstr) option" where
  "lex_exp s =
     (case s of
        c # r \<Rightarrow>
          if c = 0x65 \<or> c = 0x45 then
            (let (neg, r') = (case r of
                                d # r'' \<Rightarrow> if d = 0x2D then (True, r'')
                                           else if d = 0x2B then (False, r'') else (False, r)
                              | [] \<Rightarrow> (False, r));
                 ds = takeWhile is_digit r'
             in if ds = [] then None
                else Some (if neg then - int (digits_value ds) else int (digits_value ds),
                           dropWhile is_digit r'))
          else Some (0, s)
      | [] \<Rightarrow> Some (0, []))"

definition lex_number :: "jstr \<Rightarrow> (rat \<times> jstr) option" where
  "lex_number s =
     (let (neg, s1) = (case s of c # r \<Rightarrow> if c = 0x2D then (True, r) else (False, s) | [] \<Rightarrow> (False, s))
      in case lex_int s1 of
           None \<Rightarrow> None
         | Some (i, s2) \<Rightarrow>
             (case lex_frac s2 of
                None \<Rightarrow> None
              | Some (f, s3) \<Rightarrow>
                  (case lex_exp s3 of
                     None \<Rightarrow> None
                   | Some (e, s4) \<Rightarrow>
                       let m = of_nat (digits_value (i @ f)) / 10 ^ length f;
                           v = (if 0 \<le> e then m * 10 ^ nat e else m / 10 ^ nat (- e))
                       in Some (if neg then - v else v, s4))))"

function lex :: "jstr \<Rightarrow> token list option" where
  "lex [] = Some []"
| "lex (c # r) =
     (if is_json_ws c then lex r
      else if c = 0x7B then map_option (Cons LBrace) (lex r)
      else if c = 0x7D then map_option (Cons RBrace) (lex r)
      else if c = 0x5B then map_option (Cons LBrack) (lex r)
      else if c = 0x5D then map_option (Cons RBrack) (lex r)
      else if c = 0x3A then map_option (Cons Colon) (lex r)
      else if c = 0x2C then map_option (Cons Comma) (lex r)
      else if c = 0x22 then
        (case unquote_units r of
           None \<Rightarrow> None
         | Some (s, r') \<Rightarrow> map_option (Cons (TStr s)) (lex r'))
      else if c = 0x2D \<or> is_digit c then
        (case lex_number (c # r) of
           None \<Rightarrow> None
         | Some (x, r') \<Rightarrow> map_option (Cons (TNum x)) (lex r'))
      else if c = 0x74 \<and> take 3 r = js ''rue'' then map_option (Cons TTrue) (lex (drop 3 r))
      else if c = 0x66 \<and> take 4 r = js ''alse'' then map_option (Cons TFalse) (lex (drop 4 r))
      else if c = 0x6E \<and> take 3 r = js ''ull'' then map_option (Cons TNull) (lex (drop 3 r))
      else None)"
  by pat_completeness auto

datatype frame = FArr "js_value list" | FObj "(jstr \<times> js_value) list" jstr

fun parse_value :: "frame list \<Rightarrow> token list \<Rightarrow> js_value option"
  and parse_after :: "frame list \<Rightarrow> js_value \<Rightarrow> token list \<Rightarrow> js_value option" where
  "parse_value stk [] = None"
| "parse_value stk (t # ts) =
     (case t of
        LBrack \<Rightarrow>
          (case ts of
             RBrack # ts' \<Rightarrow> parse_after stk (JArr []) ts'
           | _ \<Rightarrow> parse_value (FArr [] # stk) ts)
      | LBrace \<Rightarrow>
          (case ts of
             RBrace # ts' \<Rightarrow> parse_after stk (JObj []) ts'
           | TStr k # Colon # ts' \<Rightarrow> parse_value (FObj [] k # stk) ts'
           | _ \<Rightarrow> None)
      | TStr s \<Rightarrow> parse_after stk (JStr s) ts
      | TNum x \<Rightarrow> parse_after stk (JNum x) ts
      | TTrue \<Rightarrow> parse_after stk (JBool True) ts
      | TFalse \<Rightarrow> parse_after stk (JBool False) ts
      | TNull \<Rightarrow> parse_after stk JNull ts
      | _ \<Rightarrow> None)"
| "parse_after [] v ts = (if ts = [] then Some v else None)"
| "parse_after (f # stk) v [] = None"
| "parse_after (FArr vs # stk) v (t # ts) =
     (case t of
        Comma \<Rightarrow> parse_value (FArr (v # vs) # stk) ts
      | RBrack \<Rightarrow> parse_after stk (JArr (rev (v # vs))) ts
      | _ \<Rightarrow> None)"
| "parse_after (FObj kvs k # stk) v (t # ts) =
     (case t of
        Comma \<Rightarrow>
          (case ts of
             TStr k' # Colon # ts' \<Rightarrow> parse_value (FObj ((k, v) # kvs) k' # stk) ts'
           | _ \<Rightarrow> None)
      | RBrace \<Rightarrow> parse_after stk (JObj (rev ((k, v) # kvs))) ts
      | _ \<Rightarrow> None)"

definition json_parse :: "jstr \<Rightarrow> js_value option" where
  "json_parse s = (case lex s of None \<Rightarrow> None | Some ts \<Rightarrow> parse_value [] ts)"

text \<open>
  \<^verbatim>\<open>response.json()\<close>: the parsed body, or the SyntaxError that
  \<^verbatim>\<open>JSON.parse\<close> throws. ECMAScript leaves the error's message to the
  engine, so it is a parameter.
\<close>

definition json_body :: "jstr \<Rightarrow> jstr \<Rightarrow> js_error + js_value" where
  "json_body msg body = (case json_parse body of None \<Rightarrow> Inl (SyntaxError msg) | Some v \<Rightarrow> Inr v)"

definition text_response :: "u16 \<Rightarrow> jstr \<Rightarrow> jstr \<Rightarrow> response" where
  "text_response st msg body = \<lparr>status = st, json_result = json_body msg body\<rparr>"

subsection \<open>JSON text as a server sends it\<close>

text \<open>
  A compact serializer of JSON values (no insignificant whitespace, integer
  numbers in decimal, strings by QuoteJSONString): the bodies the endpoint
  is documented to answer with (spec section 6).
\<close>

definition join :: "'a list \<Rightarrow> 'a list list \<Rightarrow> 'a list" where
  "join sep xss = (case xss of [] \<Rightarrow> [] | x # xs \<Rightarrow> x @ concat (map (\<lambda>y. sep @ y) xs))"

definition digit_char :: "nat \<Rightarrow> u16" where
  "digit_char d = of_nat (48 + d)"

fun nat_text :: "nat \<Rightarrow> jstr" where
  "nat_text n = (if n < 10 then [digit_char n] else nat_text (n div 10) @ [digit_char (n mod 10)])"

declare nat_text.simps [simp del]

definition int_text :: "int \<Rightarrow> jstr" where
  "int_text i = (if i < 0 then 0x2D # nat_text (nat (- i)) else nat_text (nat i))"

fun json_text :: "js_value \<Rightarrow> jstr" where
  "json_text JUndef = js ''null''"
| "json_text JNull = js ''null''"
| "json_text (JBool b) = (if b then js ''true'' else js ''false'')"
| "json_text (JNum r) = int_text \<lfloor>r\<rfloor>"
| "json_text (JStr s) = QuoteJSONString s"
| "json_text (JArr vs) = 0x5B # join [0x2C] (map json_text vs) @ [0x5D]"
| "json_text (JObj kvs) =
     0x7B # join [0x2C] (map (\<lambda>(k, v). QuoteJSONString k @ 0x3A # json_text v) kvs) @ [0x7D]"

fun json_tokens :: "js_value \<Rightarrow> token list" where
  "json_tokens JUndef = [TNull]"
| "json_tokens JNull = [TNull]"
| "json_tokens (JBool b) = [if b then TTrue else TFalse]"
| "json_tokens (JNum r) = [TNum r]"
| "json_tokens (JStr s) = [TStr s]"
| "json_tokens (JArr vs) = LBrack # join [Comma] (map json_tokens vs) @ [RBrack]"
| "json_tokens (JObj kvs) =
     LBrace # join [Comma] (map (\<lambda>(k, v). TStr k # Colon # json_tokens v) kvs) @ [RBrace]"

text \<open>The values a JSON text denotes: no undefined, integer numbers.\<close>

fun json_value :: "js_value \<Rightarrow> bool" where
  "json_value JUndef = False"
| "json_value (JNum r) = (r = of_int \<lfloor>r\<rfloor>)"
| "json_value (JArr vs) = list_all json_value vs"
| "json_value (JObj kvs) = list_all (\<lambda>(k, v). json_value v) kvs"
| "json_value _ = True"

definition json_delim :: "jstr \<Rightarrow> bool" where
  "json_delim r \<longleftrightarrow> (case r of [] \<Rightarrow> True | c # _ \<Rightarrow> c = 0x2C \<or> c = 0x5D \<or> c = 0x7D)"

subsection \<open>The lexer terminates\<close>

lemma unquote_units_shorter: "unquote_units r = Some (s, t) \<Longrightarrow> length t < length r"
proof (induction r arbitrary: s rule: unquote_units.induct)
  case (2 c r)
  then show ?case
    by (auto split: if_splits option.splits list.splits) fastforce+
qed simp

lemma lex_int_shorter: "lex_int s = Some (i, t) \<Longrightarrow> length t < length s"
  by (auto simp: lex_int_def le_imp_less_Suc length_dropWhile_le split: list.splits if_splits)

lemma lex_frac_shorter: "lex_frac s = Some (f, t) \<Longrightarrow> length t \<le> length s"
  by (auto simp: lex_frac_def length_dropWhile_le le_SucI split: list.splits if_splits)

lemma lex_exp_shorter: "lex_exp s = Some (e, t) \<Longrightarrow> length t \<le> length s"
  by (auto simp: lex_exp_def Let_def length_dropWhile_le le_SucI
      intro: le_trans [OF length_dropWhile_le] split: list.splits if_splits)

lemma lex_number_shorter: "lex_number s = Some (x, t) \<Longrightarrow> length t < length s"
  by (fastforce simp: lex_number_def Let_def split: list.splits if_splits option.splits
      dest!: lex_int_shorter lex_frac_shorter lex_exp_shorter)

termination lex
  by (relation "measure length")
    (auto dest: unquote_units_shorter lex_number_shorter)

subsection \<open>Lexing printed text\<close>

lemma lex_quoted: "lex (QuoteJSONString s @ r) = map_option (Cons (TStr s)) (lex r)"
  by (simp add: QuoteJSONString_def is_json_ws_def unquote_quote_units)

lemma unat_digit_char: "d < 10 \<Longrightarrow> unat (digit_char d) = 48 + d"
  unfolding digit_char_def by (simp only: unat_of_nat) simp

lemma digit_char_is_digit: "d < 10 \<Longrightarrow> is_digit (digit_char d)"
  by (simp add: is_digit_def word_le_nat_alt unat_digit_char)

lemma nat_text_digits: "c \<in> set (nat_text n) \<Longrightarrow> is_digit c"
proof (induction n rule: nat_text.induct)
  case (1 n)
  then show ?case
    by (subst (asm) nat_text.simps) (auto simp: digit_char_is_digit split: if_splits)
qed

lemma nat_text_value: "digits_value (nat_text n) = n"
proof (induction n rule: nat_text.induct)
  case (1 n)
  then show ?case
    by (subst nat_text.simps) (simp add: digits_value_def unat_digit_char)
qed

lemma nat_text_hd: "\<exists>d ds. nat_text n = d # ds \<and> (d = 0x30 \<longrightarrow> n = 0)"
proof (induction n rule: nat_text.induct)
  case (1 n)
  show ?case
  proof (cases "n < 10")
    case True
    have "n = 0" if "digit_char n = 0x30"
    proof -
      from that have "unat (digit_char n) = 48" by simp
      with unat_digit_char [OF True] show "n = 0" by simp
    qed
    with True show ?thesis by (simp add: nat_text.simps)
  next
    case False
    with 1 obtain d ds where "nat_text (n div 10) = d # ds" "d = 0x30 \<longrightarrow> n div 10 = 0" by blast
    moreover have "n div 10 \<noteq> 0" using False by auto
    ultimately show ?thesis using False by (simp add: nat_text.simps [of n])
  qed
qed

lemma delim_no_digit:
  "json_delim r \<Longrightarrow> takeWhile is_digit r = [] \<and> dropWhile is_digit r = r"
  by (cases r) (auto simp: json_delim_def is_digit_def)

lemma lex_frac_exp_delim:
  "json_delim r \<Longrightarrow> lex_frac r = Some ([], r)"
  "json_delim r \<Longrightarrow> lex_exp r = Some (0, r)"
  by (cases r; auto simp: json_delim_def lex_frac_def lex_exp_def)+

lemma lex_int_nat_text:
  assumes "json_delim r"
  shows "lex_int (nat_text n @ r) = Some (nat_text n, r)"
proof -
  obtain d ds where nd: "nat_text n = d # ds" and z: "d = 0x30 \<longrightarrow> n = 0"
    using nat_text_hd by blast
  have dig: "\<forall>c \<in> set (nat_text n). is_digit c" using nat_text_digits by blast
  show ?thesis
  proof (cases "d = 0x30")
    case True
    with z nd have "ds = []" by (simp add: nat_text.simps [of 0] digit_char_def)
    with True nd show ?thesis by (simp add: lex_int_def)
  next
    case False
    from dig have "takeWhile is_digit (nat_text n @ r) = nat_text n"
      "dropWhile is_digit (nat_text n @ r) = r"
      using delim_no_digit [OF assms] by (simp_all add: takeWhile_append2 dropWhile_append2)
    with False nd dig show ?thesis by (simp add: lex_int_def)
  qed
qed

lemma lex_number_nat_text:
  assumes "json_delim r"
  shows "lex_number (nat_text n @ r) = Some (of_nat n, r)"
    and "lex_number (0x2D # nat_text n @ r) = Some (- of_nat n, r)"
proof -
  obtain d ds where nd: "nat_text n = d # ds" using nat_text_hd by blast
  then have "is_digit d" using nat_text_digits [of d n] by simp
  then have "d \<noteq> 0x2D" by (auto simp: is_digit_def)
  with nd show "lex_number (nat_text n @ r) = Some (of_nat n, r)"
    using lex_int_nat_text [OF assms, of n] lex_frac_exp_delim [OF assms] nat_text_value [of n]
    by (simp add: lex_number_def)
  show "lex_number (0x2D # nat_text n @ r) = Some (- of_nat n, r)"
    using lex_int_nat_text [OF assms, of n] lex_frac_exp_delim [OF assms]
    by (simp add: lex_number_def nat_text_value)
qed

lemma lex_number_start:
  "c = 0x2D \<or> is_digit c \<Longrightarrow>
   lex (c # r) = (case lex_number (c # r) of None \<Rightarrow> None | Some (x, r') \<Rightarrow> map_option (Cons (TNum x)) (lex r'))"
  by (auto simp: is_digit_def is_json_ws_def)

lemma lex_int_text:
  "json_delim r \<Longrightarrow> lex (int_text i @ r) = map_option (Cons (TNum (of_int i))) (lex r)"
proof -
  assume r: "json_delim r"
  obtain d ds where nd: "nat_text (nat \<bar>i\<bar>) = d # ds" using nat_text_hd by blast
  then have "is_digit d" using nat_text_digits [of d "nat \<bar>i\<bar>"] by simp
  show ?thesis
  proof (cases "i < 0")
    case True
    then show ?thesis
      using lex_number_nat_text(2) [OF r, of "nat (- i)"]
      by (simp add: int_text_def is_json_ws_def)
  next
    case False
    with nd have nd': "nat_text (nat i) = d # ds" by simp
    with False have "lex (int_text i @ r) = lex (d # ds @ r)" by (simp add: int_text_def del: lex.simps)
    also have "\<dots> = (case lex_number (d # ds @ r) of
                         None \<Rightarrow> None | Some (x, r') \<Rightarrow> map_option (Cons (TNum x)) (lex r'))"
      using \<open>is_digit d\<close> by (rule lex_number_start [OF disjI2])
    also have "\<dots> = map_option (Cons (TNum (of_int i))) (lex r)"
      using lex_number_nat_text(1) [OF r, of "nat i"] nd' False by simp
    finally show ?thesis .
  qed
qed

lemma append_singleton_fun: "(@) [x] = (#) x"
  by (rule ext) simp

lemma lex_punct:
  "lex (0x5B # r) = map_option (Cons LBrack) (lex r)"
  "lex (0x5D # r) = map_option (Cons RBrack) (lex r)"
  "lex (0x7B # r) = map_option (Cons LBrace) (lex r)"
  "lex (0x7D # r) = map_option (Cons RBrace) (lex r)"
  "lex (0x3A # r) = map_option (Cons Colon) (lex r)"
  "lex (0x2C # r) = map_option (Cons Comma) (lex r)"
  by (simp_all add: is_json_ws_def)

lemma json_delim_sep: "json_delim r \<Longrightarrow> json_delim (concat (map (\<lambda>y. 0x2C # f y) xs) @ r)"
  by (cases xs) (simp_all add: json_delim_def)

lemma lex_sep:
  assumes "\<And>x r. x \<in> set xs \<Longrightarrow> json_delim r \<Longrightarrow> lex (f x @ r) = map_option (\<lambda>ts. g x @ ts) (lex r)"
    and "json_delim r"
  shows "lex (concat (map (\<lambda>y. 0x2C # f y) xs) @ r) =
         map_option (\<lambda>ts. concat (map (\<lambda>y. Comma # g y) xs) @ ts) (lex r)"
  using assms
proof (induction xs)
  case Nil
  then show ?case by (simp add: option.map_ident)
next
  case (Cons y ys)
  have "lex (f y @ concat (map (\<lambda>y. 0x2C # f y) ys) @ r) =
        map_option (\<lambda>ts. g y @ ts) (lex (concat (map (\<lambda>y. 0x2C # f y) ys) @ r))"
    using Cons.prems(1) [of y "concat (map (\<lambda>y. 0x2C # f y) ys) @ r"]
      json_delim_sep [OF Cons.prems(2), of f ys] by simp
  with Cons show ?case by (simp add: lex_punct option.map_comp o_def del: lex.simps)
qed

lemma lex_join:
  assumes "\<And>x r. x \<in> set xs \<Longrightarrow> json_delim r \<Longrightarrow> lex (f x @ r) = map_option (\<lambda>ts. g x @ ts) (lex r)"
    and "json_delim r"
  shows "lex (join [0x2C] (map f xs) @ r) = map_option (\<lambda>ts. join [Comma] (map g xs) @ ts) (lex r)"
proof (cases xs)
  case Nil
  then show ?thesis by (simp add: join_def option.map_ident)
next
  case (Cons x xs')
  have "lex (concat (map (\<lambda>y. 0x2C # f y) xs') @ r) =
        map_option (\<lambda>ts. concat (map (\<lambda>y. Comma # g y) xs') @ ts) (lex r)"
    using assms Cons by (intro lex_sep) auto
  moreover have "lex (f x @ concat (map (\<lambda>y. 0x2C # f y) xs') @ r) =
        map_option (\<lambda>ts. g x @ ts) (lex (concat (map (\<lambda>y. 0x2C # f y) xs') @ r))"
    using assms(1) [of x "concat (map (\<lambda>y. 0x2C # f y) xs') @ r"] Cons
      json_delim_sep [OF assms(2), of f xs'] by simp
  ultimately show ?thesis
    using Cons by (simp add: join_def option.map_comp o_def del: lex.simps)
qed

lemma lex_json_text:
  "json_value v \<Longrightarrow> json_delim r \<Longrightarrow> lex (json_text v @ r) = map_option (\<lambda>ts. json_tokens v @ ts) (lex r)"
proof (induction v arbitrary: r rule: json_text.induct)
  case (4 x)
  then show ?case using lex_int_text [OF \<open>json_delim r\<close>, of "\<lfloor>x\<rfloor>"] by simp
next
  case (6 vs)
  have "lex (join [0x2C] (map json_text vs) @ 0x5D # r) =
        map_option (\<lambda>ts. join [Comma] (map json_tokens vs) @ ts) (lex (0x5D # r))"
  proof (rule lex_join)
    fix x r'
    assume "x \<in> set vs" "json_delim r'"
    with 6 show "lex (json_text x @ r') = map_option (\<lambda>ts. json_tokens x @ ts) (lex r')"
      by (simp add: list_all_iff)
  qed (simp add: json_delim_def)
  then show ?case by (simp add: lex_punct option.map_comp o_def del: lex.simps)
next
  case (7 kvs)
  have "lex (join [0x2C] (map (\<lambda>(k, v). QuoteJSONString k @ 0x3A # json_text v) kvs) @ 0x7D # r) =
        map_option (\<lambda>ts. join [Comma] (map (\<lambda>(k, v). TStr k # Colon # json_tokens v) kvs) @ ts)
          (lex (0x7D # r))"
  proof (rule lex_join)
    fix x r'
    assume "x \<in> set kvs" "json_delim r'"
    with 7 show "lex ((case x of (k, v) \<Rightarrow> QuoteJSONString k @ 0x3A # json_text v) @ r') =
        map_option (\<lambda>ts. (case x of (k, v) \<Rightarrow> TStr k # Colon # json_tokens v) @ ts) (lex r')"
      by (cases x) (auto simp: lex_quoted lex_punct list_all_iff option.map_comp o_def simp del: lex.simps)
  qed (simp add: json_delim_def)
  then show ?case by (simp add: lex_punct option.map_comp o_def del: lex.simps)
qed (auto simp: lex_quoted is_json_ws_def is_digit_def append_singleton_fun)

subsection \<open>Parsing printed tokens\<close>

lemma json_tokens_hd: "\<exists>t ts. json_tokens v = t # ts \<and> t \<noteq> RBrack"
  by (cases v) auto

lemma parse_open_array:
  "t \<noteq> RBrack \<Longrightarrow> parse_value stk (LBrack # t # ts) = parse_value (FArr [] # stk) (t # ts)"
  by (cases t) auto

lemma parse_elems:
  assumes "\<And>x stk ts. x \<in> set xs \<Longrightarrow> parse_value stk (json_tokens x @ ts) = parse_after stk x ts"
  shows "parse_after (FArr acc # stk) v (concat (map (\<lambda>y. Comma # json_tokens y) xs) @ RBrack # ts) =
         parse_after stk (JArr (rev acc @ v # xs)) ts"
  using assms by (induction xs arbitrary: acc v) simp_all

lemma parse_members:
  assumes "\<And>k x stk ts. (k, x) \<in> set kvs \<Longrightarrow> parse_value stk (json_tokens x @ ts) = parse_after stk x ts"
  shows "parse_after (FObj acc k # stk) v
           (concat (map (\<lambda>(k', v'). Comma # TStr k' # Colon # json_tokens v') kvs) @ RBrace # ts) =
         parse_after stk (JObj (rev acc @ (k, v) # kvs)) ts"
  using assms
proof (induction kvs arbitrary: acc k v)
  case (Cons kv kvs)
  obtain a b where kv: "kv = (a, b)" by (cases kv)
  have pre: "parse_value stk' (json_tokens x @ ts') = parse_after stk' x ts'"
    if "(k', x) \<in> set kvs" for k' x stk' ts'
    using Cons.prems [of k' x] that by simp
  have "parse_value stk' (json_tokens b @ ts') = parse_after stk' b ts'" for stk' ts'
    using Cons.prems [of a b] kv by simp
  with Cons.IH [OF pre] kv show ?case by simp
qed simp

lemma parse_json_tokens:
  "json_value v \<Longrightarrow> parse_value stk (json_tokens v @ ts) = parse_after stk v ts"
proof (induction v arbitrary: stk ts rule: json_tokens.induct)
  case (6 vs)
  show ?case
  proof (cases vs)
    case (Cons x xs)
    obtain t tt where x: "json_tokens x = t # tt" "t \<noteq> RBrack" using json_tokens_hd by blast
    have ih: "\<And>y stk ts. y \<in> set vs \<Longrightarrow> parse_value stk (json_tokens y @ ts) = parse_after stk y ts"
      using 6 by (simp add: list_all_iff)
    have "parse_value stk (json_tokens (JArr vs) @ ts) =
          parse_value (FArr [] # stk) (json_tokens x @ concat (map (\<lambda>y. Comma # json_tokens y) xs) @ RBrack # ts)"
      using Cons x by (simp add: join_def o_def parse_open_array del: parse_value.simps)
    also have "\<dots> = parse_after (FArr [] # stk) x (concat (map (\<lambda>y. Comma # json_tokens y) xs) @ RBrack # ts)"
      using ih [of x] Cons by simp
    also have "\<dots> = parse_after stk (JArr vs) ts"
      using ih Cons by (simp add: parse_elems)
    finally show ?thesis .
  qed (simp add: join_def)
next
  case (7 kvs)
  show ?case
  proof (cases kvs)
    case (Cons kv kvs')
    obtain k x where kv: "kv = (k, x)" by (cases kv)
    have ih: "\<And>k y stk ts. (k, y) \<in> set kvs \<Longrightarrow> parse_value stk (json_tokens y @ ts) = parse_after stk y ts"
      using 7 by (fastforce simp: list_all_iff)
    let ?rest = "concat (map (\<lambda>(k', v'). Comma # TStr k' # Colon # json_tokens v') kvs') @ RBrace # ts"
    have "parse_value stk (json_tokens (JObj kvs) @ ts) =
          parse_value (FObj [] k # stk) (json_tokens x @ ?rest)"
    proof -
      have "(@) [Comma] \<circ> (\<lambda>(k, v). TStr k # Colon # json_tokens v) =
            (\<lambda>(k', v'). Comma # TStr k' # Colon # json_tokens v')"
        by (simp add: fun_eq_iff)
      with Cons kv show ?thesis by (simp add: join_def)
    qed
    also have "\<dots> = parse_after (FObj [] k # stk) x ?rest"
      using ih [of k x] Cons kv by simp
    also have "\<dots> = parse_after stk (JObj kvs) ts"
    proof -
      have "\<And>k' y stk ts. (k', y) \<in> set kvs' \<Longrightarrow> parse_value stk (json_tokens y @ ts) = parse_after stk y ts"
        using ih Cons by auto
      from parse_members [OF this] Cons kv show ?thesis by simp
    qed
    finally show ?thesis .
  qed (simp add: join_def)
qed auto

lemma json_body_Inr: "json_body msg s = Inr v \<longleftrightarrow> json_parse s = Some v"
  by (simp add: json_body_def split: option.split)

text \<open>\<^verbatim>\<open>response.json()\<close> of the text printed from a value resolves with
  that value.\<close>

lemma json_body_json_text: "json_value v \<Longrightarrow> json_body msg (json_text v) = Inr v"
proof -
  assume v: "json_value v"
  have "lex (json_text v @ []) = Some (json_tokens v)"
    using lex_json_text [OF v, of "[]"] by (simp add: json_delim_def)
  moreover have "parse_value [] (json_tokens v @ []) = Some v"
    using parse_json_tokens [OF v, of "[]" "[]"] by simp
  ultimately show ?thesis by (simp add: json_body_Inr json_parse_def)
qed

end
