(* ===== verification/Chatbot.thy ===== *)
theory Chatbot
  imports Prelude JsString JsValue JsonText
begin

text \<open>
  The component \<^verbatim>\<open>Chatbot\<close> of \<^verbatim>\<open>src/my-book/src/components/Chatbot.jsx\<close>.
  Its four \<^verbatim>\<open>useState\<close> hooks are the record \<open>chat_state\<close>; each state
  setter is a record update. \<^verbatim>\<open>handleSelection\<close> and the textarea's
  \<^verbatim>\<open>onChange\<close> are functions on the state. \<^verbatim>\<open>sendQuery\<close> is an async
  function whose only suspension points are the two awaits of the try block;
  nothing between its start and its end reads the component state, so it is
  two steps: \<open>sendQuery_start\<close> runs up to the call of \<^verbatim>\<open>fetch\<close> and
  returns the request sent, and \<open>sendQuery_settle\<close> runs the rest once the
  request has settled (the try block, the catch clause, the finally clause).
  \<open>sendQuery\<close> composes them for a network given as a function from request
  to outcome.
\<close>

record chat_state =
  query :: jstr
  answer :: js_value
  sources :: js_value
  isLoading :: bool

definition API_URL :: jstr where
  "API_URL = js ''http://127.0.0.1:8000/query''"

definition init_state :: chat_state where
  "init_state =
     \<lparr>query = [], answer = JStr (js ''Ask a question about the book content!''),
      sources = JArr [], isLoading = False\<rparr>"

subsection \<open>Selection capture and typing\<close>

definition selection_template :: "jstr \<Rightarrow> jstr" where
  "selection_template t = js ''Question based on selected text: \"'' @ t @ js ''\"''"

text \<open>
  \<open>sel\<close> is \<^verbatim>\<open>window.getSelection()\<close>: \<open>None\<close> for null, whose optional
  chain yields undefined, else the selection's text.
\<close>

definition handleSelection :: "jstr option \<Rightarrow> chat_state \<Rightarrow> chat_state" where
  "handleSelection sel s =
     (let selectedText = (case sel of None \<Rightarrow> JUndef | Some txt \<Rightarrow> JStr (js_trim txt))
      in case selectedText of
           JStr t \<Rightarrow> if truthy selectedText then s\<lparr>query := selection_template t\<rparr> else s
         | _ \<Rightarrow> s)"

definition onChange :: "jstr \<Rightarrow> chat_state \<Rightarrow> chat_state" where
  "onChange v s = s\<lparr>query := v\<rparr>"

subsection \<open>The request\<close>

record http_request =
  req_url :: jstr
  req_method :: jstr
  req_headers :: "(jstr \<times> jstr) list"
  req_body :: jstr

definition query_request :: "jstr \<Rightarrow> http_request" where
  "query_request q =
     \<lparr>req_url = API_URL, req_method = js ''POST'',
      req_headers = [(js ''Content-Type'', js ''application/json'')],
      req_body = stringify_query q\<rparr>"

subsection \<open>sendQuery\<close>

definition sendQuery_start :: "chat_state \<Rightarrow> chat_state \<times> http_request option" where
  "sendQuery_start s =
     (if \<not> truthy (JStr (js_trim (query s))) then (s, None)
      else (s\<lparr>isLoading := True, answer := JStr [], sources := JArr []\<rparr>,
            Some (query_request (query s))))"

definition msg_server_error :: jstr where
  "msg_server_error = js ''Server error or unauthorized access.''"

definition fallback_answer :: jstr where
  "fallback_answer = js ''Could not find an answer.''"

definition key_final_answer :: jstr where
  "key_final_answer = js ''final_answer''"

definition key_sources :: jstr where
  "key_sources = js ''sources''"

text \<open>
  The try block after the request has settled: the state it leaves and the
  error it throws, if any. A throw skips the rest of the block, so
  \<^verbatim>\<open>setAnswer\<close> has run when \<^verbatim>\<open>data.sources\<close> throws, and not otherwise.
\<close>

definition try_block :: "fetch_outcome \<Rightarrow> chat_state \<Rightarrow> chat_state \<times> js_error option" where
  "try_block out s =
     (case out of
        Rejected e \<Rightarrow> (s, Some e)
      | Resolved r \<Rightarrow>
          if \<not> resp_ok r then (s, Some (Error msg_server_error))
          else (case json_result r of
                  Inl e \<Rightarrow> (s, Some e)
                | Inr data \<Rightarrow>
                    (case get_prop data key_final_answer of
                       Inl e \<Rightarrow> (s, Some e)
                     | Inr fa \<Rightarrow>
                         let s1 = s\<lparr>answer := js_or fa (JStr fallback_answer)\<rparr>
                         in (case get_prop data key_sources of
                               Inl e \<Rightarrow> (s1, Some e)
                             | Inr src \<Rightarrow> (s1\<lparr>sources := js_or src (JArr [])\<rparr>, None)))))"

definition error_prefix :: jstr where
  "error_prefix = js ''Error: Could not connect to RAG server or internal error.''"

definition error_text :: "js_error \<Rightarrow> jstr" where
  "error_text e = error_prefix @ js '' ('' @ err_message e @ js '')''"

definition catch_clause :: "js_error \<Rightarrow> chat_state \<Rightarrow> chat_state" where
  "catch_clause e s = s\<lparr>answer := JStr (error_text e)\<rparr>"

definition finally_clause :: "chat_state \<Rightarrow> chat_state" where
  "finally_clause s = s\<lparr>isLoading := False\<rparr>"

definition sendQuery_settle :: "fetch_outcome \<Rightarrow> chat_state \<Rightarrow> chat_state" where
  "sendQuery_settle out s =
     (case try_block out s of
        (s1, None) \<Rightarrow> finally_clause s1
      | (s1, Some e) \<Rightarrow> finally_clause (catch_clause e s1))"

definition sendQuery :: "(http_request \<Rightarrow> fetch_outcome) \<Rightarrow> chat_state \<Rightarrow> chat_state \<times> http_request list" where
  "sendQuery net s =
     (case sendQuery_start s of
        (s1, None) \<Rightarrow> (s1, [])
      | (s1, Some req) \<Rightarrow> (sendQuery_settle (net req) s1, [req]))"

subsection \<open>The contract of a settled request\<close>

text \<open>
  What a settled request amounts to, as the spec states it: an error
  (network failure, non-2xx status, body that is not JSON, a body that is
  null) or an answer and a list of sources, the fallbacks applied. The
  settle phase is the atomic update \<open>settle_spec\<close> of that result.
\<close>

definition request_result :: "fetch_outcome \<Rightarrow> js_error + js_value \<times> js_value" where
  "request_result out =
     (case out of
        Rejected e \<Rightarrow> Inl e
      | Resolved r \<Rightarrow>
          if \<not> resp_ok r then Inl (Error msg_server_error)
          else (case json_result r of
                  Inl e \<Rightarrow> Inl e
                | Inr data \<Rightarrow>
                    (case (get_prop data key_final_answer, get_prop data key_sources) of
                       (Inr fa, Inr src) \<Rightarrow> Inr (js_or fa (JStr fallback_answer), js_or src (JArr []))
                     | (Inl e, _) \<Rightarrow> Inl e
                     | (_, Inl e) \<Rightarrow> Inl e)))"

definition settle_spec :: "fetch_outcome \<Rightarrow> chat_state \<Rightarrow> chat_state" where
  "settle_spec out s =
     (case request_result out of
        Inl e \<Rightarrow> s\<lparr>answer := JStr (error_text e), isLoading := False\<rparr>
      | Inr (a, src) \<Rightarrow> s\<lparr>answer := a, sources := src, isLoading := False\<rparr>)"

text \<open>Responses used by the examples of the spec's tests.\<close>

definition ok_response :: "js_value \<Rightarrow> response" where
  "ok_response v = \<lparr>status = 200, json_result = Inr v\<rparr>"

definition fetch_failed :: js_error where
  "fetch_failed = TypeError (js ''Failed to fetch'')"

declare API_URL_def [chat_defs] init_state_def [chat_defs] selection_template_def [chat_defs]
  handleSelection_def [chat_defs] onChange_def [chat_defs] query_request_def [chat_defs]
  sendQuery_start_def [chat_defs] try_block_def [chat_defs] catch_clause_def [chat_defs]
  finally_clause_def [chat_defs] sendQuery_settle_def [chat_defs] sendQuery_def [chat_defs]

subsection \<open>Lemmas on the handlers\<close>

lemma settle_failure_eq:
  "request_result out = Inl e \<Longrightarrow>
   sendQuery_settle out s = s\<lparr>answer := JStr (error_text e), isLoading := False\<rparr>"
proof (cases out)
  case (Rejected e')
  assume "request_result out = Inl e"
  with Rejected show ?thesis by (simp add: chat_defs request_result_def)
next
  case (Resolved r)
  assume res: "request_result out = Inl e"
  show ?thesis
  proof (cases "resp_ok r \<and> (\<exists>data. json_result r = Inr data)")
    case True
    then obtain data where ok: "resp_ok r" and d: "json_result r = Inr data" by blast
    with Resolved res show ?thesis
      by (cases data) (auto simp: chat_defs request_result_def Let_def)
  next
    case False
    with Resolved res show ?thesis
      by (cases "json_result r") (auto simp: chat_defs request_result_def)
  qed
qed

lemma settle_success_eq:
  "request_result out = Inr (a, src) \<Longrightarrow>
   sendQuery_settle out s = s\<lparr>answer := a, sources := src, isLoading := False\<rparr>"
proof (cases out)
  case (Rejected e')
  assume "request_result out = Inr (a, src)"
  with Rejected show ?thesis by (simp add: request_result_def)
next
  case (Resolved r)
  assume res: "request_result out = Inr (a, src)"
  then have ok: "resp_ok r" using Resolved by (simp add: request_result_def split: if_splits)
  from res Resolved ok obtain data where d: "json_result r = Inr data"
    by (cases "json_result r") (auto simp: request_result_def)
  with Resolved res ok show ?thesis
    by (cases data) (auto simp: chat_defs request_result_def Let_def)
qed

lemma settle_split:
  "P (sendQuery_settle out s) \<longleftrightarrow>
   (case request_result out of
      Inl e \<Rightarrow> P (s\<lparr>answer := JStr (error_text e), isLoading := False\<rparr>)
    | Inr (a, src) \<Rightarrow> P (s\<lparr>answer := a, sources := src, isLoading := False\<rparr>))"
  by (cases "request_result out") (auto simp: settle_failure_eq settle_success_eq)

lemma settle_clears_loading: "\<not> isLoading (sendQuery_settle out s)"
  by (subst settle_split [where P = "\<lambda>t. \<not> isLoading t"]) (simp split: sum.split)

lemma start_blank_eq: "js_blank (query s) \<Longrightarrow> sendQuery_start s = (s, None)"
  by (simp add: sendQuery_start_def js_blank_def)

lemma start_nonblank_eq:
  "\<not> js_blank (query s) \<Longrightarrow>
   sendQuery_start s =
     (s\<lparr>isLoading := True, answer := JStr [], sources := JArr []\<rparr>, Some (query_request (query s)))"
  by (simp add: sendQuery_start_def js_blank_def)

lemma handleSelection_Some_eq:
  "handleSelection (Some txt) s =
     (if js_blank txt then s else s\<lparr>query := selection_template (js_trim txt)\<rparr>)"
  by (simp add: handleSelection_def js_blank_def)

lemmas example_defs = ok_response_def resp_ok_def key_final_answer_def key_sources_def
  js_blank_def js_trim_def is_js_ws_def

subsection \<open>The settle phase\<close>

text \<open>C3: the settle phase of \<^verbatim>\<open>sendQuery\<close> (try block, catch clause,
  finally clause, with the intermediate \<^verbatim>\<open>setAnswer\<close> of the try block)
  is the atomic update of the request's result: the error text and the
  unchanged sources on failure, the answer and sources on success, and
  \<^verbatim>\<open>isLoading\<close> false in both cases.\<close>

theorem sendQuery_settle_refines: "sendQuery_settle out s = settle_spec out s"
  by (simp add: settle_spec_def settle_failure_eq settle_success_eq split: sum.split)

text \<open>C19: a response whose status is not in 200..299 is an error whatever its
  body: the answer is the fixed prefix followed by the server-error message in
  parentheses, and the sources are untouched.\<close>

theorem settle_not_ok:
  "\<not> resp_ok r \<Longrightarrow>
   sendQuery_settle (Resolved r) s =
     s\<lparr>answer := JStr (error_prefix @ js '' (Server error or unauthorized access.)''),
       isLoading := False\<rparr>"
  by (simp add: settle_failure_eq request_result_def error_text_def msg_server_error_def)

theorem settle_not_ok_witness:
  "\<not> resp_ok \<lparr>status = 500, json_result = Inr (JObj [])\<rparr> \<and>
   sendQuery_settle (Resolved \<lparr>status = 500, json_result = Inr (JObj [])\<rparr>) init_state =
     init_state\<lparr>answer := JStr (error_prefix @ js '' (Server error or unauthorized access.)''),
       isLoading := False\<rparr>"
  using settle_not_ok [of "\<lparr>status = 500, json_result = Inr (JObj [])\<rparr>" init_state]
  by (simp add: resp_ok_def)

text \<open>C21: \<^verbatim>\<open>||\<close> replaces every falsy answer, not only a missing one: a
  success response whose \<^verbatim>\<open>final_answer\<close> is present but falsy (the empty
  string, 0, false, null) leaves the fallback answer.\<close>

theorem settle_falsy_answer:
  "resp_ok r \<Longrightarrow> json_result r = Inr (JObj kvs) \<Longrightarrow>
   map_of (rev kvs) key_final_answer = Some v \<Longrightarrow> \<not> truthy v \<Longrightarrow>
   answer (sendQuery_settle (Resolved r) s) = JStr (js ''Could not find an answer.'')"
  by (simp add: settle_split [where P = "\<lambda>t. answer t = _"] request_result_def fallback_answer_def
      split: sum.split)

theorem settle_falsy_answer_witness:
  "answer (sendQuery_settle (Resolved (ok_response (JObj [(key_final_answer, JStr [])]))) init_state) =
   JStr (js ''Could not find an answer.'')"
  using settle_falsy_answer [of "ok_response (JObj [(key_final_answer, JStr [])])"
      "[(key_final_answer, JStr [])]" "JStr []" init_state]
  by (simp add: ok_response_def resp_ok_def)

subsection \<open>The whole handler\<close>

text \<open>C5: a query that is empty or whitespace only is ignored: no state change
  and no request.\<close>

theorem sendQuery_blank_noop: "js_blank (query s) \<Longrightarrow> sendQuery net s = (s, [])"
  by (simp add: sendQuery_def start_blank_eq)

theorem sendQuery_blank_noop_witness:
  "sendQuery (\<lambda>_. Rejected fetch_failed) (init_state\<lparr>query := js '' \<newline> ''\<rparr>) =
   (init_state\<lparr>query := js '' \<newline> ''\<rparr>, [])"
  using sendQuery_blank_noop [of "init_state\<lparr>query := js '' \<newline> ''\<rparr>" "\<lambda>_. Rejected fetch_failed"]
  by (simp add: example_defs)

text \<open>C6: otherwise exactly one request is sent, a POST to the fixed URL whose
  body is \<^verbatim>\<open>{"query": q}\<close> for the untrimmed query, from a state where the
  button is disabled and answer and sources are cleared.\<close>

theorem sendQuery_nonblank:
  "\<not> js_blank (query s) \<Longrightarrow>
   sendQuery net s =
     (sendQuery_settle (net (query_request (query s)))
        (s\<lparr>isLoading := True, answer := JStr [], sources := JArr []\<rparr>),
      [\<lparr>req_url = js ''http://127.0.0.1:8000/query'', req_method = js ''POST'',
        req_headers = [(js ''Content-Type'', js ''application/json'')],
        req_body = stringify_query (query s)\<rparr>])"
  by (simp add: sendQuery_def start_nonblank_eq query_request_def API_URL_def)

theorem sendQuery_nonblank_witness:
  "sendQuery (\<lambda>_. Rejected fetch_failed) (init_state\<lparr>query := js '' hi''\<rparr>) =
     (sendQuery_settle (Rejected fetch_failed)
        (init_state\<lparr>query := js '' hi'', isLoading := True, answer := JStr [], sources := JArr []\<rparr>),
      [\<lparr>req_url = js ''http://127.0.0.1:8000/query'', req_method = js ''POST'',
        req_headers = [(js ''Content-Type'', js ''application/json'')],
        req_body = stringify_query (js '' hi'')\<rparr>])"
  using sendQuery_nonblank [of "init_state\<lparr>query := js '' hi''\<rparr>" "\<lambda>_. Rejected fetch_failed"]
  by (simp add: example_defs)

text \<open>C4: for a query that is not blank, \<^verbatim>\<open>isLoading\<close> is true as soon as
  the request is sent and false once the handler has finished, whatever the
  network answers.\<close>

theorem sendQuery_loading_cycle:
  "\<not> js_blank (query s) \<Longrightarrow>
   isLoading (fst (sendQuery_start s)) \<and> \<not> isLoading (fst (sendQuery net s))"
  by (simp add: sendQuery_def start_nonblank_eq settle_clears_loading)

theorem sendQuery_loading_cycle_witness:
  "isLoading (fst (sendQuery_start (init_state\<lparr>query := js ''hi''\<rparr>))) \<and>
   \<not> isLoading (fst (sendQuery (\<lambda>_. Resolved (ok_response JNull)) (init_state\<lparr>query := js ''hi''\<rparr>)))"
  using sendQuery_loading_cycle [of "init_state\<lparr>query := js ''hi''\<rparr>" "\<lambda>_. Resolved (ok_response JNull)"]
  by (simp add: example_defs)

text \<open>C20: when the request fails, the handler ends with the error text as the
  answer, no sources and the button enabled.\<close>

theorem sendQuery_failure_final:
  "\<not> js_blank (query s) \<Longrightarrow> request_result (net (query_request (query s))) = Inl e \<Longrightarrow>
   sendQuery net s =
     (s\<lparr>answer := JStr (error_text e), sources := JArr [], isLoading := False\<rparr>,
      [query_request (query s)])"
  by (simp add: sendQuery_def start_nonblank_eq settle_failure_eq)

theorem sendQuery_failure_final_witness:
  "sendQuery (\<lambda>_. Rejected fetch_failed) (init_state\<lparr>query := js ''hi''\<rparr>) =
     (init_state\<lparr>query := js ''hi'', answer := JStr (error_text fetch_failed), sources := JArr [],
        isLoading := False\<rparr>,
      [query_request (js ''hi'')])"
  using sendQuery_failure_final [of "init_state\<lparr>query := js ''hi''\<rparr>" "\<lambda>_. Rejected fetch_failed" fetch_failed]
  by (simp add: example_defs request_result_def)

subsection \<open>Selection capture\<close>

text \<open>C22: a selection whose text is not blank replaces the query with the
  template quoting the trimmed selection.\<close>

theorem handleSelection_nonblank:
  "\<not> js_blank txt \<Longrightarrow>
   handleSelection (Some txt) s =
     s\<lparr>query := js ''Question based on selected text: \"'' @ js_trim txt @ js ''\"''\<rparr>"
  by (simp add: handleSelection_Some_eq selection_template_def)

theorem handleSelection_nonblank_witness:
  "handleSelection (Some (js ''  foo \<newline>'')) init_state =
   init_state\<lparr>query := js ''Question based on selected text: \"foo\"''\<rparr>"
  using handleSelection_nonblank [of "js ''  foo \<newline>''" init_state]
  by (simp add: example_defs)

text \<open>C23: no selection (\<^verbatim>\<open>getSelection()\<close> null) or a blank one leaves
  the state unchanged.\<close>

theorem handleSelection_blank:
  "(\<forall>txt. sel = Some txt \<longrightarrow> js_blank txt) \<Longrightarrow> handleSelection sel s = s"
  by (cases sel) (simp_all add: handleSelection_def js_blank_def)

theorem handleSelection_blank_witness:
  "handleSelection (Some (js '' \<newline> '')) init_state = init_state"
  using handleSelection_blank [of "Some (js '' \<newline> '')" init_state]
  by (simp add: example_defs)

end
