(* ===== verification/Lifecycle.thy ===== *)
theory Lifecycle
  imports Prelude JsValue Chatbot
begin

text \<open>
  The component in its environment: the document it registers listeners on,
  the requests in flight, and the order in which events arrive. A
  \<open>world\<close> holds whether an instance is mounted, the number of the current
  (or last) instance, its state, the document's listener list for the two
  event types, the requests in flight with the instance that sent them, and
  the log of every request sent. \<open>world_step\<close> runs one event to
  completion, as the single-threaded event loop does:
  \<^item> \<open>Mount\<close>: a fresh instance with the \<^verbatim>\<open>useState\<close> initial values, then the
    effect of lines 17-31 registers \<^verbatim>\<open>handleSelection\<close> for mouseup and keyup;
  \<^item> \<open>Unmount\<close>: the effect's cleanup removes both registrations;
  \<^item> \<open>Type\<close>: the textarea's \<^verbatim>\<open>onChange\<close>;
  \<^item> \<open>DocEvent\<close>: a mouseup or keyup on the document, dispatched to every
    listener registered for its type;
  \<^item> \<open>Click\<close>: the button, which does nothing while it is disabled
    (\<^verbatim>\<open>disabled={isLoading}\<close>) and otherwise runs \<^verbatim>\<open>sendQuery\<close> up to its
    first await;
  \<^item> \<open>Settle n out\<close>: request \<open>n\<close> settles with \<open>out\<close> and the rest of its
    \<^verbatim>\<open>sendQuery\<close> runs.
  A state update of an instance that is no longer mounted is dropped, as
  React drops it. Requests settle in any order, also after an unmount.
\<close>

datatype doc_event = MouseUp | KeyUp

record pending =
  req_id :: nat
  req_inst :: nat
  req_sent :: http_request

record world =
  mounted :: bool
  inst :: nat
  st :: chat_state
  listeners :: "(doc_event \<times> nat) list"
  in_flight :: "pending list"
  next_id :: nat
  sent :: "http_request list"

datatype event =
    Mount
  | Unmount
  | Type jstr
  | DocEvent doc_event "jstr option"
  | Click
  | Settle nat fetch_outcome

definition init_world :: world where
  "init_world =
     \<lparr>mounted = False, inst = 0, st = init_state, listeners = [], in_flight = [],
      next_id = 0, sent = []\<rparr>"

text \<open>
  \<^verbatim>\<open>addEventListener\<close> ignores a registration of a (type, callback) pair
  already present; \<^verbatim>\<open>removeEventListener\<close> removes the matching one. The
  callback of instance \<open>i\<close> is its own \<^verbatim>\<open>handleSelection\<close> closure.
\<close>

definition addEventListener :: "doc_event \<times> nat \<Rightarrow> (doc_event \<times> nat) list \<Rightarrow> (doc_event \<times> nat) list" where
  "addEventListener l ls = (if l \<in> set ls then ls else ls @ [l])"

definition removeEventListener :: "doc_event \<times> nat \<Rightarrow> (doc_event \<times> nat) list \<Rightarrow> (doc_event \<times> nat) list" where
  "removeEventListener l ls = removeAll l ls"

definition set_state :: "nat \<Rightarrow> (chat_state \<Rightarrow> chat_state) \<Rightarrow> world \<Rightarrow> world" where
  "set_state i f w = (if mounted w \<and> i = inst w then w\<lparr>st := f (st w)\<rparr> else w)"

definition mount :: "world \<Rightarrow> world" where
  "mount w =
     (if mounted w then w
      else let i = Suc (inst w);
               ls = addEventListener (KeyUp, i) (addEventListener (MouseUp, i) (listeners w))
           in w\<lparr>mounted := True, inst := i, st := init_state, listeners := ls\<rparr>)"

definition unmount :: "world \<Rightarrow> world" where
  "unmount w =
     (if \<not> mounted w then w
      else w\<lparr>mounted := False,
             listeners := removeEventListener (KeyUp, inst w)
                            (removeEventListener (MouseUp, inst w) (listeners w))\<rparr>)"

definition deliver :: "doc_event \<Rightarrow> jstr option \<Rightarrow> doc_event \<times> nat \<Rightarrow> world \<Rightarrow> world" where
  "deliver et sel l w =
     (case l of (et', i) \<Rightarrow> if et' = et then set_state i (handleSelection sel) w else w)"

definition dispatch :: "doc_event \<Rightarrow> jstr option \<Rightarrow> world \<Rightarrow> world" where
  "dispatch et sel w = fold (deliver et sel) (listeners w) w"

definition click :: "world \<Rightarrow> world" where
  "click w =
     (if \<not> mounted w \<or> isLoading (st w) then w
      else (case sendQuery_start (st w) of
              (s', None) \<Rightarrow> w\<lparr>st := s'\<rparr>
            | (s', Some r) \<Rightarrow>
                w\<lparr>st := s',
                  in_flight := in_flight w @ [\<lparr>req_id = next_id w, req_inst = inst w, req_sent = r\<rparr>],
                  next_id := Suc (next_id w), sent := sent w @ [r]\<rparr>))"

definition settle :: "nat \<Rightarrow> fetch_outcome \<Rightarrow> world \<Rightarrow> world" where
  "settle n out w =
     (case find (\<lambda>p. req_id p = n) (in_flight w) of
        None \<Rightarrow> w
      | Some p \<Rightarrow>
          set_state (req_inst p) (sendQuery_settle out)
            (w\<lparr>in_flight := filter (\<lambda>p. req_id p \<noteq> n) (in_flight w)\<rparr>))"

fun world_step :: "world \<Rightarrow> event \<Rightarrow> world" where
  "world_step w Mount = mount w"
| "world_step w Unmount = unmount w"
| "world_step w (Type v) = (if mounted w then set_state (inst w) (onChange v) w else w)"
| "world_step w (DocEvent et sel) = dispatch et sel w"
| "world_step w Click = click w"
| "world_step w (Settle n out) = settle n out w"

definition run :: "world \<Rightarrow> event list \<Rightarrow> world" where
  "run w evs = fold (\<lambda>e w. world_step w e) evs w"

inductive reachable :: "world \<Rightarrow> bool" where
  init: "reachable init_world"
| step: "reachable w \<Longrightarrow> reachable (world_step w e)"

subsection \<open>The invariant\<close>

definition own_in_flight :: "world \<Rightarrow> pending list" where
  "own_in_flight w = filter (\<lambda>p. req_inst p = inst w) (in_flight w)"

definition world_inv :: "world \<Rightarrow> bool" where
  "world_inv w \<longleftrightarrow>
     listeners w = (if mounted w then [(MouseUp, inst w), (KeyUp, inst w)] else []) \<and>
     (mounted w \<longrightarrow> isLoading (st w) = (own_in_flight w \<noteq> [])) \<and>
     length (own_in_flight w) \<le> 1 \<and>
     (\<forall>p \<in> set (in_flight w). req_id p < next_id w \<and> req_inst p \<le> inst w) \<and>
     distinct (map req_id (in_flight w)) \<and>
     req_sent ` set (in_flight w) \<subseteq> set (sent w) \<and>
     (\<forall>r \<in> set (sent w). \<exists>q. r = query_request q \<and> \<not> js_blank q)"

subsection \<open>Reachable worlds\<close>

lemma reachable_run: "reachable w \<Longrightarrow> reachable (run w evs)"
  by (induction evs arbitrary: w) (auto simp: run_def intro: reachable.step)

lemma reachable_iff_run: "reachable w \<longleftrightarrow> (\<exists>evs. w = run init_world evs)"
proof
  assume "reachable w"
  then show "\<exists>evs. w = run init_world evs"
  proof (induction rule: reachable.induct)
    case init
    show ?case by (rule exI [of _ "[]"]) (simp add: run_def)
  next
    case (step w e)
    then obtain evs where "w = run init_world evs" by blast
    then have "world_step w e = run init_world (evs @ [e])" by (simp add: run_def)
    then show ?case by blast
  qed
next
  assume "\<exists>evs. w = run init_world evs"
  then show "reachable w" using reachable_run reachable.init by blast
qed

declare init_world_def [world_defs] mount_def [world_defs] unmount_def [world_defs]
  click_def [world_defs] settle_def [world_defs] set_state_def [world_defs]
  addEventListener_def [world_defs] removeEventListener_def [world_defs]
  dispatch_def [world_defs] deliver_def [world_defs] run_def [world_defs]
  init_state_def [world_defs] onChange_def [world_defs] sendQuery_start_def [world_defs]
  handleSelection_def [world_defs] selection_template_def [world_defs]
  js_trim_def [world_defs] is_js_ws_def [world_defs]

subsection \<open>Preservation of the invariant\<close>

lemma find_SomeD': "find P xs = Some x \<Longrightarrow> x \<in> set xs \<and> P x"
  by (auto simp: find_Some_iff)

lemma isLoading_handleSelection [simp]: "isLoading (handleSelection sel s) = isLoading s"
  by (simp add: handleSelection_def split: option.split)

lemma deliver_frame [simp]:
  "mounted (deliver et sel l w) = mounted w"
  "inst (deliver et sel l w) = inst w"
  "listeners (deliver et sel l w) = listeners w"
  "in_flight (deliver et sel l w) = in_flight w"
  "next_id (deliver et sel l w) = next_id w"
  "sent (deliver et sel l w) = sent w"
  "isLoading (st (deliver et sel l w)) = isLoading (st w)"
  by (simp_all add: deliver_def set_state_def split: prod.split)

lemma dispatch_frame [simp]:
  "mounted (dispatch et sel w) = mounted w"
  "inst (dispatch et sel w) = inst w"
  "listeners (dispatch et sel w) = listeners w"
  "in_flight (dispatch et sel w) = in_flight w"
  "next_id (dispatch et sel w) = next_id w"
  "sent (dispatch et sel w) = sent w"
  "isLoading (st (dispatch et sel w)) = isLoading (st w)"
  unfolding dispatch_def
  by (rule fold_invariant_proj, rule deliver_frame)+

lemma world_inv_init: "world_inv init_world"
  by (simp add: world_inv_def init_world_def own_in_flight_def)

lemma mount_inv: "world_inv w \<Longrightarrow> world_inv (mount w)"
proof -
  assume inv: "world_inv w"
  show ?thesis
  proof (cases "mounted w")
    case True
    with inv show ?thesis by (simp add: mount_def)
  next
    case False
    with inv have "listeners w = []" by (simp add: world_inv_def)
    with False have m: "mount w = w\<lparr>mounted := True, inst := Suc (inst w), st := init_state,
        listeners := [(MouseUp, Suc (inst w)), (KeyUp, Suc (inst w))]\<rparr>"
      by (simp add: mount_def addEventListener_def)
    have "\<forall>p \<in> set (in_flight w). req_inst p \<le> inst w"
      using inv by (simp add: world_inv_def)
    then have "own_in_flight (mount w) = []"
      by (auto simp: m own_in_flight_def filter_empty_conv)
    with inv show ?thesis
      by (simp add: world_inv_def m init_state_def le_SucI)
  qed
qed

lemma unmount_inv: "world_inv w \<Longrightarrow> world_inv (unmount w)"
  by (simp add: unmount_def world_inv_def own_in_flight_def removeEventListener_def)

lemma world_inv_frame:
  assumes "mounted w' = mounted w" "inst w' = inst w" "listeners w' = listeners w"
    "in_flight w' = in_flight w" "next_id w' = next_id w" "sent w' = sent w"
    "isLoading (st w') = isLoading (st w)"
  shows "world_inv w' = world_inv w"
  using assms by (simp add: world_inv_def own_in_flight_def)

lemma dispatch_inv: "world_inv w \<Longrightarrow> world_inv (dispatch et sel w)"
  using world_inv_frame [of "dispatch et sel w" w] by simp

lemma type_inv: "world_inv w \<Longrightarrow> world_inv (set_state i (onChange v) w)"
  using world_inv_frame [of "set_state i (onChange v) w" w] by (simp add: set_state_def onChange_def)

lemma own_in_flight_single:
  "length (own_in_flight w) \<le> 1 \<Longrightarrow> p \<in> set (own_in_flight w) \<Longrightarrow> own_in_flight w = [p]"
  by (cases "own_in_flight w") auto

lemma click_inv: "world_inv w \<Longrightarrow> world_inv (click w)"
proof -
  assume inv: "world_inv w"
  show ?thesis
  proof (cases "\<not> mounted w \<or> isLoading (st w)")
    case True
    with inv show ?thesis by (simp add: click_def)
  next
    case False
    then have m: "mounted w" and idle: "\<not> isLoading (st w)" by auto
    with inv have own0: "own_in_flight w = []" by (simp add: world_inv_def)
    show ?thesis
    proof (cases "js_blank (query (st w))")
      case True
      then have "click w = w" using m idle by (simp add: click_def sendQuery_start_def js_blank_def)
      with inv show ?thesis by simp
    next
      case False
      let ?r = "query_request (query (st w))"
      let ?p = "\<lparr>req_id = next_id w, req_inst = inst w, req_sent = ?r\<rparr>"
      have c: "click w = w\<lparr>st := (st w)\<lparr>isLoading := True, answer := JStr [], sources := JArr []\<rparr>,
          in_flight := in_flight w @ [?p], next_id := Suc (next_id w), sent := sent w @ [?r]\<rparr>"
        using m idle False by (simp add: click_def sendQuery_start_def js_blank_def)
      have own1: "own_in_flight (click w) = [?p]"
        using own0 by (simp add: c own_in_flight_def)
      have fresh: "next_id w \<notin> req_id ` set (in_flight w)"
        using inv by (auto simp: world_inv_def)
      have ids: "\<forall>p \<in> set (in_flight w). req_id p < Suc (next_id w) \<and> req_inst p \<le> inst w"
        using inv by (auto simp: world_inv_def)
      have sent: "req_sent ` set (in_flight w) \<subseteq> set (sent w)"
        and log: "\<forall>r \<in> set (sent w). \<exists>q. r = query_request q \<and> \<not> js_blank q"
        using inv by (simp_all add: world_inv_def)
      have "distinct (map req_id (in_flight w))" using inv by (simp add: world_inv_def)
      with fresh have "distinct (map req_id (in_flight (click w)))" by (simp add: c)
      moreover have "listeners (click w) = (if mounted (click w) then [(MouseUp, inst (click w)), (KeyUp, inst (click w))] else [])"
        using inv by (simp add: c world_inv_def)
      ultimately show ?thesis
        using own1 ids sent log False by (auto simp: world_inv_def c)
    qed
  qed
qed

lemma world_inv_filter:
  assumes inv: "world_inv w"
    and ld: "mounted w \<longrightarrow> isLoading (st w') = (own_in_flight w' \<noteq> [])"
    and w': "w' = w\<lparr>st := st', in_flight := filter P (in_flight w)\<rparr>"
  shows "world_inv w'"
proof -
  have "listeners w' = (if mounted w' then [(MouseUp, inst w'), (KeyUp, inst w')] else [])"
    using inv by (simp add: w' world_inv_def)
  moreover have "length (own_in_flight w') \<le> 1"
  proof -
    have "length (own_in_flight w') \<le> length (own_in_flight w)"
      by (simp add: w' own_in_flight_def length_filter_conj_le)
    then show ?thesis using inv by (simp add: world_inv_def)
  qed
  moreover have "\<forall>p \<in> set (in_flight w'). req_id p < next_id w' \<and> req_inst p \<le> inst w'"
    using inv by (simp add: w' world_inv_def)
  moreover have "distinct (map req_id (in_flight w'))"
    using inv by (simp add: w' world_inv_def distinct_map_filter)
  moreover have "req_sent ` set (in_flight w') \<subseteq> set (sent w')"
    using inv by (auto simp: w' world_inv_def)
  moreover have "\<forall>r \<in> set (sent w'). \<exists>q. r = query_request q \<and> \<not> js_blank q"
    using inv by (simp add: w' world_inv_def)
  ultimately show ?thesis using ld by (simp add: world_inv_def w')
qed

lemma settle_inv: "world_inv w \<Longrightarrow> world_inv (settle n out w)"
proof (cases "find (\<lambda>p. req_id p = n) (in_flight w)")
  case None
  assume "world_inv w"
  with None show ?thesis by (simp add: settle_def)
next
  case (Some p)
  assume inv: "world_inv w"
  have p: "p \<in> set (in_flight w)" "req_id p = n" using Some by (auto dest: find_SomeD')
  let ?w1 = "w\<lparr>in_flight := filter (\<lambda>q. req_id q \<noteq> n) (in_flight w)\<rparr>"
  have s: "settle n out w = set_state (req_inst p) (sendQuery_settle out) ?w1"
    using Some by (simp add: settle_def)
  have own1: "own_in_flight ?w1 = filter (\<lambda>q. req_id q \<noteq> n) (own_in_flight w)"
    by (simp add: own_in_flight_def, rule filter_cong [OF refl], blast)
  have dist: "distinct (map req_id (in_flight w))" using inv by (simp add: world_inv_def)
  show ?thesis
  proof (cases "mounted w \<and> req_inst p = inst w")
    case True
    then have "p \<in> set (own_in_flight w)" using p by (simp add: own_in_flight_def)
    with inv have "own_in_flight w = [p]"
      by (intro own_in_flight_single) (simp_all add: world_inv_def)
    then have none: "own_in_flight ?w1 = []" using p own1 by simp
    have s2: "settle n out w = w\<lparr>st := sendQuery_settle out (st w),
        in_flight := filter (\<lambda>q. req_id q \<noteq> n) (in_flight w)\<rparr>"
      using s True by (simp add: set_state_def)
    show ?thesis
    proof (rule world_inv_filter [OF inv _ s2])
      show "mounted w \<longrightarrow> isLoading (st (settle n out w)) = (own_in_flight (settle n out w) \<noteq> [])"
        using none by (simp add: s2 settle_clears_loading own_in_flight_def)
    qed
  next
    case False
    have nc: "\<not> (mounted ?w1 \<and> req_inst p = inst ?w1)" using False by simp
    have "settle n out w = ?w1" using s by (simp only: set_state_def if_not_P [OF nc])
    then have s1: "settle n out w = w\<lparr>st := st w, in_flight := filter (\<lambda>q. req_id q \<noteq> n) (in_flight w)\<rparr>"
      by simp
    have inj: "inj_on req_id (set (in_flight w))" using dist by (simp add: distinct_map)
    have "mounted w \<longrightarrow> own_in_flight ?w1 = own_in_flight w"
    proof
      assume m: "mounted w"
      have "\<forall>q \<in> set (own_in_flight w). req_id q \<noteq> n"
      proof
        fix q assume q: "q \<in> set (own_in_flight w)"
        then have qin: "q \<in> set (in_flight w)" and qown: "req_inst q = inst w"
          by (simp_all add: own_in_flight_def)
        show "req_id q \<noteq> n"
        proof
          assume "req_id q = n"
          then have "q = p" using inj qin p by (metis inj_onD)
          with qown m False show False by simp
        qed
      qed
      then have "filter (\<lambda>q. req_id q \<noteq> n) (own_in_flight w) = own_in_flight w"
        by (simp add: filter_id_conv)
      then show "own_in_flight ?w1 = own_in_flight w" by (simp only: own1)
    qed
    then have "mounted w \<longrightarrow> isLoading (st (settle n out w)) = (own_in_flight (settle n out w) \<noteq> [])"
      using inv s1 by (simp add: world_inv_def)
    then show ?thesis by (rule world_inv_filter [OF inv _ s1])
  qed
qed

lemma world_step_inv: "world_inv w \<Longrightarrow> world_inv (world_step w e)"
  by (cases e) (simp_all add: mount_inv unmount_inv dispatch_inv type_inv click_inv settle_inv)

lemma reachable_world_inv: "reachable w \<Longrightarrow> world_inv w"
  by (induction rule: reachable.induct) (simp_all add: world_inv_init world_step_inv)

lemma reachable_run_init: "reachable (run init_world evs)"
  by (rule reachable_run [OF reachable.init])

subsection \<open>Properties of every reachable world\<close>

text \<open>C1: while the component is mounted, the button is disabled
  (\<^verbatim>\<open>isLoading\<close>) exactly when a request of this instance is in flight.\<close>

theorem reachable_loading_iff_in_flight:
  "reachable w \<Longrightarrow> mounted w \<Longrightarrow>
   isLoading (st w) \<longleftrightarrow> (\<exists>p \<in> set (in_flight w). req_inst p = inst w)"
proof -
  assume "reachable w" "mounted w"
  then have "isLoading (st w) = (own_in_flight w \<noteq> [])"
    by (simp add: reachable_world_inv [unfolded world_inv_def])
  then show ?thesis by (simp add: own_in_flight_def filter_empty_conv)
qed

theorem reachable_loading_iff_in_flight_witness:
  "mounted (run init_world [Mount, Type (js ''hi''), Click]) \<and>
   isLoading (st (run init_world [Mount, Type (js ''hi''), Click])) \<and>
   (\<exists>p \<in> set (in_flight (run init_world [Mount, Type (js ''hi''), Click])).
      req_inst p = inst (run init_world [Mount, Type (js ''hi''), Click]))"
  using reachable_loading_iff_in_flight [OF reachable_run_init [of "[Mount, Type (js ''hi''), Click]"]]
  by (simp add: world_defs)

text \<open>C2: at most one request of the current instance is ever in flight.\<close>

theorem reachable_single_in_flight:
  "reachable w \<Longrightarrow> length (filter (\<lambda>p. req_inst p = inst w) (in_flight w)) \<le> 1"
  by (drule reachable_world_inv) (simp add: world_inv_def own_in_flight_def)

theorem reachable_single_in_flight_witness:
  "length (filter (\<lambda>p. req_inst p = inst (run init_world [Mount, Type (js ''hi''), Click, Click]))
     (in_flight (run init_world [Mount, Type (js ''hi''), Click, Click]))) = 1"
proof -
  let ?w = "run init_world [Mount, Type (js ''hi''), Click, Click]"
  have "length (filter (\<lambda>p. req_inst p = inst ?w) (in_flight ?w)) \<le> 1"
    by (rule reachable_single_in_flight [OF reachable_run_init])
  moreover have "length (filter (\<lambda>p. req_inst p = inst ?w) (in_flight ?w)) \<noteq> 0"
    by (simp add: world_defs)
  ultimately show ?thesis by arith
qed

text \<open>C9: the document holds exactly the two selection listeners of the mounted
  instance, and none once it is unmounted: the effect's cleanup leaves no
  listener behind.\<close>

theorem reachable_listeners:
  "reachable w \<Longrightarrow>
   listeners w = (if mounted w then [(MouseUp, inst w), (KeyUp, inst w)] else [])"
  by (drule reachable_world_inv) (simp add: world_inv_def)

theorem reachable_listeners_witness:
  "listeners (run init_world [Mount, Unmount, Mount]) = [(MouseUp, 2), (KeyUp, 2)]"
  using reachable_listeners [OF reachable_run_init [of "[Mount, Unmount, Mount]"]]
  by (simp add: world_defs)

text \<open>C8: whatever the pending request settles with, delivering it re-enables
  the button: the mounted component always returns to idle.\<close>

theorem settle_returns_idle:
  "reachable w \<Longrightarrow> mounted w \<Longrightarrow> isLoading (st w) \<Longrightarrow>
   \<exists>p \<in> set (in_flight w). \<forall>out. \<not> isLoading (st (world_step w (Settle (req_id p) out)))"
proof -
  assume r: "reachable w" and m: "mounted w" and l: "isLoading (st w)"
  have inv: "world_inv w" using r by (rule reachable_world_inv)
  with m l obtain p where p: "p \<in> set (in_flight w)" "req_inst p = inst w"
    by (auto simp: world_inv_def own_in_flight_def filter_empty_conv)
  have inj: "inj_on req_id (set (in_flight w))" using inv by (simp add: world_inv_def distinct_map)
  obtain q where f: "find (\<lambda>q. req_id q = req_id p) (in_flight w) = Some q"
    using p by (cases "find (\<lambda>q. req_id q = req_id p) (in_flight w)") (auto simp: find_None_iff)
  then have "q \<in> set (in_flight w)" "req_id q = req_id p" by (auto dest: find_SomeD')
  with inj p have "q = p" by (metis inj_onD)
  with f p m have "\<forall>out. \<not> isLoading (st (world_step w (Settle (req_id p) out)))"
    by (simp add: settle_def set_state_def settle_clears_loading)
  with p show ?thesis by blast
qed

theorem settle_returns_idle_witness:
  "\<exists>p \<in> set (in_flight (run init_world [Mount, Type (js ''hi''), Click])).
     \<forall>out. \<not> isLoading (st (world_step (run init_world [Mount, Type (js ''hi''), Click]) (Settle (req_id p) out)))"
proof -
  let ?w = "run init_world [Mount, Type (js ''hi''), Click]"
  have "mounted ?w" "isLoading (st ?w)" by (simp_all add: world_defs)
  then show ?thesis by (rule settle_returns_idle [OF reachable_run_init])
qed

text \<open>C24: every request ever sent is the POST of a query that is not blank.\<close>

theorem reachable_sent_nonblank:
  "reachable w \<Longrightarrow> r \<in> set (sent w) \<Longrightarrow> \<exists>q. r = query_request q \<and> \<not> js_blank q"
  by (drule reachable_world_inv) (simp add: world_inv_def)

theorem reachable_sent_nonblank_witness:
  "sent (run init_world [Mount, Click, Type (js ''  ''), Click, Type (js ''hi''), Click]) =
     [query_request (js ''hi'')] \<and>
   (\<exists>q. query_request (js ''hi'') = query_request q \<and> \<not> js_blank q)"
proof -
  let ?w = "run init_world [Mount, Click, Type (js ''  ''), Click, Type (js ''hi''), Click]"
  have s: "sent ?w = [query_request (js ''hi'')]" by (simp add: world_defs)
  then have "query_request (js ''hi'') \<in> set (sent ?w)" by simp
  with s show ?thesis using reachable_sent_nonblank [OF reachable_run_init] by blast
qed

end
