(* ===== verification/Render.thy ===== *)
theory Render
  imports Prelude JsValue Chatbot Lifecycle
begin

text \<open>
  The JSX of \<^verbatim>\<open>Chatbot\<close> (lines 69-96) as a function of the state. Rendering
  has two phases. Running the component function evaluates the JSX
  expressions: \<^verbatim>\<open>sources.length > 0 && (...)\<close> and, when it holds,
  \<^verbatim>\<open>sources.map(...)\<close>, which throws a TypeError for anything but an
  array. React then turns the element tree into DOM, where a child value
  follows React's rules: a string or number is text, true, false, null and
  undefined render nothing, an array renders its elements, and a plain
  object throws. \<open>render\<close> returns the error thrown or the \<open>view\<close> (the
  textarea's value, the button, the response paragraph and the children of
  the sources box: its label text and one span per source);
  \<open>None\<close> marks the one case outside the model, a \<^verbatim>\<open>length\<close> member that
  must be converted from a string, array or object to a number.
\<close>

datatype node = TextNode jstr | NumberNode rat | SpanNode "node list"

record view =
  v_query :: jstr
  v_button_disabled :: bool
  v_button_label :: jstr
  v_response :: "node list"
  v_sources :: "node list option"

definition react_object_child :: js_error where
  "react_object_child = Error (js ''Objects are not valid as a React child'')"

text \<open>The text before the tags on line 91. JSX does not read Markdown, so the
  asterisks are rendered as they are.\<close>

definition sources_label :: jstr where
  "sources_label = js ''**Sources:** ''"

definition map_not_function :: js_error where
  "map_not_function = TypeError (js ''sources.map is not a function'')"

fun render_child :: "js_value \<Rightarrow> js_error + node list"
  and render_children :: "js_value list \<Rightarrow> js_error + node list" where
  "render_child JUndef = Inr []"
| "render_child JNull = Inr []"
| "render_child (JBool b) = Inr []"
| "render_child (JNum r) = Inr [NumberNode r]"
| "render_child (JStr s) = Inr [TextNode s]"
| "render_child (JArr vs) = render_children vs"
| "render_child (JObj kvs) = Inl react_object_child"
| "render_children [] = Inr []"
| "render_children (v # vs) =
     (case render_child v of
        Inl e \<Rightarrow> Inl e
      | Inr ns \<Rightarrow> (case render_children vs of Inl e \<Rightarrow> Inl e | Inr ms \<Rightarrow> Inr (ns @ ms)))"

text \<open>\<open>x > 0\<close> for the operand types whose ToNumber is modelled.\<close>

fun gt_zero :: "js_value \<Rightarrow> bool option" where
  "gt_zero (JNum r) = Some (0 < r)"
| "gt_zero JUndef = Some False"
| "gt_zero JNull = Some False"
| "gt_zero (JBool b) = Some b"
| "gt_zero _ = None"

text \<open>
  Line 89 and the call of \<^verbatim>\<open>map\<close> on line 91: the values to render as
  source tags (\<open>None\<close> when the condition is false and nothing is
  rendered), or the error thrown.
\<close>

definition sources_area :: "js_value \<Rightarrow> (js_error + js_value list option) option" where
  "sources_area src =
     (case get_prop src key_length of
        Inl e \<Rightarrow> Some (Inl e)
      | Inr len \<Rightarrow>
          (case gt_zero len of
             None \<Rightarrow> None
           | Some False \<Rightarrow> Some (Inr None)
           | Some True \<Rightarrow>
               (case src of
                  JArr vs \<Rightarrow> Some (Inr (Some vs))
                | _ \<Rightarrow> Some (Inl map_not_function))))"

fun render_tags :: "js_value list \<Rightarrow> js_error + node list list" where
  "render_tags [] = Inr []"
| "render_tags (v # vs) =
     (case render_child v of
        Inl e \<Rightarrow> Inl e
      | Inr ns \<Rightarrow> (case render_tags vs of Inl e \<Rightarrow> Inl e | Inr nss \<Rightarrow> Inr (ns # nss)))"

definition render :: "chat_state \<Rightarrow> (js_error + view) option" where
  "render s =
     map_option
       (\<lambda>sa. case sa of
          Inl e \<Rightarrow> Inl e
        | Inr vals \<Rightarrow>
            (case (if isLoading s then Inr [TextNode (js ''Processing...'')] else render_child (answer s)) of
               Inl e \<Rightarrow> Inl e
             | Inr resp \<Rightarrow>
                 (case (case vals of
                          None \<Rightarrow> Inr None
                        | Some vs \<Rightarrow>
                            map_sum id (\<lambda>nss. Some (TextNode sources_label # map SpanNode nss))
                              (render_tags vs)) of
                    Inl e \<Rightarrow> Inl e
                  | Inr tags \<Rightarrow>
                      Inr \<lparr>v_query = query s, v_button_disabled = isLoading s,
                           v_button_label = (if isLoading s then js ''Thinking...'' else js ''Get Answer''),
                           v_response = resp, v_sources = tags\<rparr>)))
       (sources_area (sources s))"

subsection \<open>Values React renders without throwing\<close>

fun renderable :: "js_value \<Rightarrow> bool" where
  "renderable (JObj kvs) = False"
| "renderable (JArr vs) = list_all renderable vs"
| "renderable _ = True"

definition view_safe :: "chat_state \<Rightarrow> bool" where
  "view_safe s \<longleftrightarrow> renderable (answer s) \<and> (\<exists>vs. sources s = JArr vs \<and> list_all renderable vs)"

text \<open>A settled request whose result the view can show.\<close>

definition shaped :: "fetch_outcome \<Rightarrow> bool" where
  "shaped out \<longleftrightarrow>
     (case request_result out of
        Inl e \<Rightarrow> True
      | Inr (a, src) \<Rightarrow> renderable a \<and> (\<exists>vs. src = JArr vs \<and> list_all renderable vs))"

text \<open>The worlds reachable when every request that settles settles shaped.\<close>

inductive reachable_shaped :: "world \<Rightarrow> bool" where
  init: "reachable_shaped init_world"
| step: "reachable_shaped w \<Longrightarrow> (\<forall>n out. e = Settle n out \<longrightarrow> shaped out) \<Longrightarrow>
    reachable_shaped (world_step w e)"

subsection \<open>Rendering succeeds on renderable values\<close>

lemma render_child_ok:
  "renderable v \<Longrightarrow> \<exists>ns. render_child v = Inr ns"
  and render_children_ok:
  "list_all renderable vs \<Longrightarrow> \<exists>ns. render_children vs = Inr ns"
  by (induction v and vs rule: render_child_render_children.induct) auto

lemma render_tags_ok: "list_all renderable vs \<Longrightarrow> \<exists>nss. render_tags vs = Inr nss"
  by (induction vs) (auto dest: render_child_ok)

lemma sources_area_array:
  "sources_area (JArr vs) = Some (Inr (if vs = [] then None else Some vs))"
  by (simp add: sources_area_def)

lemma view_safe_render: "view_safe s \<Longrightarrow> \<exists>v. render s = Some (Inr v)"
proof -
  assume vs: "view_safe s"
  then obtain vs where src: "sources s = JArr vs" and rv: "list_all renderable vs"
    and ra: "renderable (answer s)" by (auto simp: view_safe_def)
  obtain ns where ans: "(if isLoading s then Inr [TextNode (js ''Processing...'')] else render_child (answer s)) = Inr ns"
    using render_child_ok [OF ra] by (cases "isLoading s") auto
  obtain nss where tags: "render_tags vs = Inr nss" using render_tags_ok [OF rv] by blast
  show ?thesis
    by (simp add: render_def src sources_area_array ans tags)
qed

lemma reachable_shaped_run:
  "reachable_shaped w \<Longrightarrow> (\<forall>n out. Settle n out \<in> set evs \<longrightarrow> shaped out) \<Longrightarrow>
   reachable_shaped (run w evs)"
proof (induction evs arbitrary: w)
  case Nil
  then show ?case by (simp add: run_def)
next
  case (Cons e evs)
  have "reachable_shaped (world_step w e)"
    using Cons.prems by (intro reachable_shaped.step) auto
  with Cons.prems(2) Cons.IH show ?case by (simp add: run_def)
qed

lemma render_tags_strings: "render_tags (map JStr xs) = Inr (map (\<lambda>x. [TextNode x]) xs)"
  by (induction xs) simp_all

lemma render_idle:
  assumes "\<not> isLoading s" "sources s = JArr vs" "render_child (answer s) = Inr resp"
    "render_tags vs = Inr nss"
  shows "render s = Some (Inr \<lparr>v_query = query s, v_button_disabled = False,
    v_button_label = js ''Get Answer'', v_response = resp,
    v_sources = (if vs = [] then None else Some (TextNode sources_label # map SpanNode nss))\<rparr>)"
  using assms by (simp add: render_def sources_area_array)

subsection \<open>Every operation keeps the state renderable\<close>

lemma handleSelection_frame [simp]:
  "answer (handleSelection sel s) = answer s" "sources (handleSelection sel s) = sources s"
  by (simp_all add: handleSelection_def split: option.split)

lemma view_safe_init: "view_safe init_state"
  by (simp add: view_safe_def init_state_def)

lemma view_safe_start: "view_safe s \<Longrightarrow> view_safe (fst (sendQuery_start s))"
  by (simp add: view_safe_def sendQuery_start_def)

lemma view_safe_settle: "view_safe s \<Longrightarrow> shaped out \<Longrightarrow> view_safe (sendQuery_settle out s)"
  by (cases "request_result out")
    (auto simp: view_safe_def shaped_def settle_failure_eq settle_success_eq)

lemma view_safe_dispatch: "view_safe (st w) \<Longrightarrow> view_safe (st (dispatch et sel w))"
proof -
  have "(answer (st (dispatch et sel w)), sources (st (dispatch et sel w))) = (answer (st w), sources (st w))"
    unfolding dispatch_def
    by (rule fold_invariant_proj) (simp add: deliver_def set_state_def split: prod.split)
  then show "view_safe (st w) \<Longrightarrow> view_safe (st (dispatch et sel w))"
    by (simp add: view_safe_def)
qed

lemma view_safe_step:
  "view_safe (st w) \<Longrightarrow> (\<forall>n out. e = Settle n out \<longrightarrow> shaped out) \<Longrightarrow>
   view_safe (st (world_step w e))"
proof (cases e)
  case Mount
  assume "view_safe (st w)"
  with Mount show ?thesis by (simp add: mount_def view_safe_init Let_def)
next
  case Unmount
  assume "view_safe (st w)"
  with Unmount show ?thesis by (simp add: unmount_def)
next
  case (Type v)
  assume "view_safe (st w)"
  with Type show ?thesis by (simp add: set_state_def onChange_def view_safe_def)
next
  case (DocEvent et sel)
  assume "view_safe (st w)"
  with DocEvent show ?thesis by (simp add: view_safe_dispatch)
next
  case Click
  assume "view_safe (st w)"
  with Click view_safe_start [of "st w"] show ?thesis
    by (auto simp: click_def split: prod.split option.split)
next
  case (Settle n out)
  assume "view_safe (st w)" and sh: "\<forall>n out. e = Settle n out \<longrightarrow> shaped out"
  with Settle have "shaped out" by simp
  with \<open>view_safe (st w)\<close> Settle show ?thesis
    by (auto simp: settle_def set_state_def view_safe_settle split: option.split)
qed

lemma reachable_shaped_view_safe: "reachable_shaped w \<Longrightarrow> view_safe (st w)"
  by (induction rule: reachable_shaped.induct) (simp_all add: init_world_def view_safe_init view_safe_step)

lemma reachable_shaped_reachable: "reachable_shaped w \<Longrightarrow> reachable w"
  by (induction rule: reachable_shaped.induct) (auto intro: reachable.intros)

lemma render_button: "render s = Some (Inr v) \<Longrightarrow> v_button_disabled v = isLoading s"
  unfolding render_def
  by (cases "sources_area (sources s)")
    (auto split: sum.split_asm option.split_asm simp: map_sum_def split: sum.split)

subsection \<open>What the view shows\<close>

text \<open>C12: in every world reached while the backend answers with a renderable
  \<^verbatim>\<open>final_answer\<close> and an array of renderable \<^verbatim>\<open>sources\<close> (or the request
  fails), rendering the component succeeds: no JSX expression and no React
  child throws.\<close>

theorem reachable_shaped_renders: "reachable_shaped w \<Longrightarrow> \<exists>v. render (st w) = Some (Inr v)"
  by (intro view_safe_render reachable_shaped_view_safe)

theorem reachable_shaped_renders_witness:
  "reachable_shaped (run init_world [Mount, Type (js ''hi''), Click,
      Settle 0 (Resolved (ok_response (JObj [(key_final_answer, JStr (js ''42'')),
                                             (key_sources, JArr [JStr (js ''a.md'')])])))]) \<and>
   (\<exists>v. render (st (run init_world [Mount, Type (js ''hi''), Click,
      Settle 0 (Resolved (ok_response (JObj [(key_final_answer, JStr (js ''42'')),
                                             (key_sources, JArr [JStr (js ''a.md'')])])))])) = Some (Inr v))"
proof -
  let ?out = "Resolved (ok_response (JObj [(key_final_answer, JStr (js ''42'')),
                                           (key_sources, JArr [JStr (js ''a.md'')])]))"
  have "shaped ?out" by (simp add: shaped_def request_result_def example_defs)
  then have "reachable_shaped (run init_world [Mount, Type (js ''hi''), Click, Settle 0 ?out])"
    by (intro reachable_shaped_run reachable_shaped.init) auto
  with reachable_shaped_renders show ?thesis by blast
qed

text \<open>C17: right after a non-blank query is submitted, the view shows the
  query, a disabled button labelled "Thinking...", the text "Processing..."
  and no source list.\<close>

theorem render_after_start:
  "\<not> js_blank (query s) \<Longrightarrow>
   render (fst (sendQuery_start s)) =
     Some (Inr \<lparr>v_query = query s, v_button_disabled = True, v_button_label = js ''Thinking...'',
                v_response = [TextNode (js ''Processing...'')], v_sources = None\<rparr>)"
  by (simp add: start_nonblank_eq render_def sources_area_array)

theorem render_after_start_witness:
  "render (fst (sendQuery_start (init_state\<lparr>query := js '' hi''\<rparr>))) =
     Some (Inr \<lparr>v_query = js '' hi'', v_button_disabled = True, v_button_label = js ''Thinking...'',
                v_response = [TextNode (js ''Processing...'')], v_sources = None\<rparr>)"
  using render_after_start [of "init_state\<lparr>query := js '' hi''\<rparr>"] by (simp add: example_defs)

text \<open>C18: after a 2xx response with a non-empty string answer and an array
  of strings as sources, the view shows the answer, one tag per source in
  order (no list when there are none), and an enabled "Get Answer" button.\<close>

theorem render_after_success:
  "a \<noteq> [] \<Longrightarrow>
   render (sendQuery_settle (Resolved (ok_response
       (JObj [(key_final_answer, JStr a), (key_sources, JArr (map JStr xs))]))) s) =
     Some (Inr \<lparr>v_query = query s, v_button_disabled = False, v_button_label = js ''Get Answer'',
                v_response = [TextNode a],
                v_sources = (if xs = [] then None
                             else Some (TextNode sources_label # map (\<lambda>x. SpanNode [TextNode x]) xs))\<rparr>)"
  by (simp add: settle_success_eq request_result_def example_defs render_idle render_tags_strings)

theorem render_after_success_witness:
  "render (sendQuery_settle (Resolved (ok_response
       (JObj [(key_final_answer, JStr (js ''42'')), (key_sources, JArr (map JStr [js ''a'', js ''b'']))]))) init_state) =
     Some (Inr \<lparr>v_query = [], v_button_disabled = False, v_button_label = js ''Get Answer'',
                v_response = [TextNode (js ''42'')],
                v_sources = Some [TextNode (js ''**Sources:** ''),
                                  SpanNode [TextNode (js ''a'')], SpanNode [TextNode (js ''b'')]]\<rparr>)"
  using render_after_success [of "js ''42''" "[js ''a'', js ''b'']" init_state]
  by (simp add: init_state_def sources_label_def)

text \<open>C16: from a renderable state, every failing request renders: the
  response area shows exactly the error text and the button is enabled
  again.\<close>

theorem render_after_failure:
  "view_safe s \<Longrightarrow> request_result out = Inl e \<Longrightarrow>
   \<exists>v. render (sendQuery_settle out s) = Some (Inr v) \<and>
       v_response v = [TextNode (error_text e)] \<and> \<not> v_button_disabled v"
proof -
  assume vs: "view_safe s" and r: "request_result out = Inl e"
  then obtain vs where src: "sources s = JArr vs" and rv: "list_all renderable vs"
    by (auto simp: view_safe_def)
  obtain nss where "render_tags vs = Inr nss" using render_tags_ok [OF rv] by blast
  with src show ?thesis by (simp add: settle_failure_eq [OF r] render_idle)
qed

theorem render_after_failure_witness:
  "\<exists>v. render (sendQuery_settle (Rejected fetch_failed) init_state) = Some (Inr v) \<and>
       v_response v = [TextNode (error_text fetch_failed)] \<and> \<not> v_button_disabled v"
  using render_after_failure [of init_state "Rejected fetch_failed" fetch_failed]
  by (simp add: view_safe_init request_result_def)

text \<open>C14: a 2xx body whose \<^verbatim>\<open>sources\<close> is a non-empty string makes
  rendering throw the TypeError of \<^verbatim>\<open>sources.map\<close>, whatever the
  answer: the shape error is not shown as error text.\<close>

theorem render_string_sources_throws:
  "t \<noteq> [] \<Longrightarrow>
   render (sendQuery_settle (Resolved (ok_response (JObj [(key_final_answer, a), (key_sources, JStr t)]))) s) =
     Some (Inl map_not_function)"
  by (simp add: settle_success_eq request_result_def example_defs render_def sources_area_def key_length_def)

theorem render_string_sources_throws_witness:
  "render (sendQuery_settle (Resolved (ok_response
      (JObj [(key_final_answer, JStr (js ''42'')), (key_sources, JStr (js ''ch1.md''))]))) init_state) =
     Some (Inl map_not_function)"
  using render_string_sources_throws [of "js ''ch1.md''" "JStr (js ''42'')" init_state] by simp

text \<open>C15: a 2xx body whose \<^verbatim>\<open>final_answer\<close> is an object makes React
  throw when it renders the response paragraph.\<close>

theorem render_object_answer_throws:
  "render (sendQuery_settle (Resolved (ok_response (JObj [(key_final_answer, JObj kvs)]))) s) =
     Some (Inl react_object_child)"
  by (simp add: settle_success_eq request_result_def example_defs render_def sources_area_array)

end
