(* ===== verification/Spec2Isabelle.thy ===== *)
theory Spec2Isabelle
  imports Prelude JsString JsValue JsonText JsonParse Chatbot Lifecycle Render
begin

text \<open>
  \<^bold>\<open>A verification development of the Chatbot widget\<close>
  (\<^verbatim>\<open>src/my-book/src/components/Chatbot.jsx\<close>, a React component of a
  Docusaurus site).

  \<^bold>\<open>The program.\<close> One component with four pieces of state
  (\<^verbatim>\<open>query\<close>, \<^verbatim>\<open>answer\<close>, \<^verbatim>\<open>sources\<close>, \<^verbatim>\<open>isLoading\<close>) and three
  parts that change it: the selection watcher (\<^verbatim>\<open>handleSelection\<close>,
  registered on the document for mouseup and keyup by an effect that removes
  both registrations on unmount), the textarea's \<^verbatim>\<open>onChange\<close>, and the
  async \<^verbatim>\<open>sendQuery\<close>, which validates the query, POSTs
  \<^verbatim>\<open>JSON.stringify({query})\<close> to a fixed URL, and stores the answer and
  sources or an error text, resetting \<^verbatim>\<open>isLoading\<close> in a finally clause.
  The render (lines 69-96) shows the state; the button is disabled while
  \<^verbatim>\<open>isLoading\<close>.

  \<^bold>\<open>Theories and what they model.\<close>
  \<^item> \<open>Prelude\<close>: JavaScript strings as lists of UTF-16 code units
    (\<open>jstr = 16 word list\<close>), ASCII literals through \<open>js\<close>, the named
    collections \<open>chat_defs\<close> and \<open>world_defs\<close>, and list lemmas shared
    by the components.
  \<^item> \<open>JsString\<close>: \<^verbatim>\<open>String.prototype.trim\<close> (called on lines 19 and 34),
    modelled from ECMAScript's TrimString as \<open>js_trim\<close>, and
    \<open>js_blank\<close> for \<^verbatim>\<open>!q.trim()\<close>.
  \<^item> \<open>JsValue\<close>: the values the code handles (\<open>js_value\<close>, JSON values
    and undefined), the errors (\<open>js_error\<close>), ToBoolean (\<open>truthy\<close>),
    \<^verbatim>\<open>||\<close> (\<open>js_or\<close>), member access with its TypeError
    (\<open>get_prop\<close>), and the fetch outcome: a rejection or a
    \<open>response\<close> whose \<^verbatim>\<open>status\<close> is an unsigned short (\<open>16 word\<close>)
    with \<^verbatim>\<open>ok\<close> for 200..299 and the result of \<^verbatim>\<open>response.json()\<close>.
  \<^item> \<open>JsonText\<close>: \<^verbatim>\<open>JSON.stringify({query})\<close> (line 47) through
    ECMAScript's QuoteJSONString, with hex digits built by word bit operations.
  \<^item> \<open>JsonParse\<close>: \<^verbatim>\<open>response.json()\<close> (line 54) as
    \<^verbatim>\<open>JSON.parse\<close> of the body text: \<open>lex\<close> (a \<^theory_text>\<open>function\<close>
    whose termination is proved after the lemmas that the string and number
    scanners \<open>unquote_units\<close> and \<open>lex_number\<close> consume input), and
    \<open>parse_value\<close>/\<open>parse_after\<close>, an iterative parser with an explicit
    stack of open arrays and objects, structural on the tokens.
    \<open>json_body\<close> is the promise's outcome, the SyntaxError carrying the
    engine's message as a parameter; \<open>text_response\<close> builds a fetch
    response from a status and a body text. \<open>json_text\<close> is a compact
    serializer for the bodies the endpoint sends; the lemma
    \<open>json_body_json_text\<close> shows that \<^verbatim>\<open>response.json()\<close> reads every
    such text back as the value printed (lexing and parsing lemmas on token
    lists with a stack and a remainder). The root theory's
    \<open>documented_body\<close> is the documented success body (spec section 6).
  \<^item> \<open>Chatbot\<close>: the component, lines 10-66. \<open>chat_state\<close> is the four
    hooks; \<open>init_state\<close> their initial values (lines 11-14);
    \<open>handleSelection\<close> (18-24), \<open>onChange\<close> (75), \<open>query_request\<close>
    (42-48). \<^verbatim>\<open>sendQuery\<close> (33-66) is split at its await:
    \<open>sendQuery_start\<close> (34-38 and the call of fetch) and
    \<open>sendQuery_settle\<close>, made of \<open>try_block\<close> (50-58),
    \<open>catch_clause\<close> (60-62) and \<open>finally_clause\<close> (63-65); nothing in
    between reads the state, so the split loses no interleaving.
    \<open>sendQuery\<close> composes both for a network given as a function.
    \<open>request_result\<close> and \<open>settle_spec\<close> are the abstract contract of a
    settled request (spec section 4.2).
  \<^item> \<open>Lifecycle\<close>: the component in the page, as a state machine.
    \<open>world\<close> holds the mount state, the instance number, the component
    state, the document's listener list, the requests in flight (tagged with
    the instance that sent them) and the log of requests sent;
    \<open>world_step\<close> runs one event (mount with the effect of lines 17-31,
    unmount with its cleanup, typing, a document mouseup/keyup dispatched to
    the registered listeners, a click on the button gated by
    \<^verbatim>\<open>disabled={isLoading}\<close> (line 79), and a request settling, in any
    order, also after an unmount). Updates of an unmounted instance are
    dropped, as React drops them. \<open>reachable\<close> is the inductive set of
    worlds reachable from the page before the first mount.
  \<^item> \<open>Render\<close>: the JSX (lines 69-96) as \<open>render\<close>, a function of the
    state to the error thrown or the \<open>view\<close> (textarea value, button
    state and label, response paragraph, sources box). It evaluates the JSX
    expressions first (\<open>sources_area\<close> for \<^verbatim>\<open>sources.length > 0\<close>
    and \<^verbatim>\<open>sources.map\<close>, lines 89-91) and then applies React's rules
    for children (\<open>render_child\<close>: strings and numbers are text,
    booleans, null and undefined nothing, arrays their elements, objects
    throw). The sources box is its literal label \<open>sources_label\<close>
    followed by one span per source. \<open>reachable_shaped\<close> restricts \<open>reachable\<close> to backends
    whose successful answers have the documented shape.

  \<^bold>\<open>What is proved.\<close>
  \<^item> The settle phase refines the atomic contract (\<open>sendQuery_settle_refines\<close>):
    a failure sets the error text and keeps the sources, a success stores
    the answer and sources with their \<^verbatim>\<open>||\<close> defaults. Every non-2xx
    status gives the server-error text whatever the body; every falsy
    \<^verbatim>\<open>final_answer\<close>, not only a missing one, gets the fallback.
  \<^item> The whole handler: a blank query changes nothing and sends nothing; any
    other query sends exactly one POST with the untrimmed query and ends with
    \<^verbatim>\<open>isLoading\<close> false whatever the network does.
  \<^item> Selection capture: a non-blank selection sets the template with the
    trimmed text; no or a blank selection changes nothing.
  \<^item> Lifecycle invariants over every reachable world, by rule induction
    (\<open>world_inv\<close>, one preservation lemma per event): while mounted,
    \<^verbatim>\<open>isLoading\<close> holds exactly when a request of this instance is in
    flight; at most one such request is ever in flight; the document holds
    exactly the two listeners of the mounted instance and none after unmount;
    the pending request
    always brings the component back to idle; every request sent carries a
    non-blank query.
  \<^item> Response bodies: for every 2xx response whose body is the JSON text
    of a documented answer, the settle phase stores that answer (or the
    fallback) and those sources (or the empty list); a 2xx body that is not
    JSON is shown as the SyntaxError text with the sources kept.
  \<^item> Rendering: every operation keeps a state renderable
    (\<open>view_safe\<close>, one lemma per event), so no world reached with a
    well-shaped backend makes rendering throw; the loading view, the answer
    view and the error view are what the spec describes; with the
    lifecycle invariant, the rendered button is disabled exactly while a
    request of the mounted instance is in flight. A 2xx body whose
    \<^verbatim>\<open>sources\<close> is a non-empty string, or whose \<^verbatim>\<open>final_answer\<close> is
    an object, makes rendering throw instead of showing an error text.

  \<^bold>\<open>Choices of the model.\<close> There is no loop in the component, so no fuel:
  the recursive definitions are the built-ins' loops (the quoting of a
  string, the JSON lexer with a measure whose termination is proved after
  the lemmas that its scanners consume input, the parser, structural on the
  tokens), each total. Numbers of parsed JSON are
  the rationals they denote (JavaScript rounds them to doubles; the
  difference shows only for literals beyond double precision, such as
  \<^verbatim>\<open>1e-400\<close>, which JavaScript reads as a falsy 0). In the render, \<^verbatim>\<open>x > 0\<close> is modelled for the
  operands whose ToNumber needs no string parsing (\<open>gt_zero\<close>); a
  \<^verbatim>\<open>length\<close> member holding a string, array or object is outside the
  model (\<open>render\<close> gives \<open>None\<close>), which no theorem relies on. Member access is modelled for keys that name no
  property of the built-in prototypes (\<^verbatim>\<open>final_answer\<close>,
  \<^verbatim>\<open>sources\<close>) and for \<^verbatim>\<open>length\<close>. The TypeError message is V8's.

  \<^bold>\<open>Not modelled.\<close> \<^verbatim>\<open>console.error\<close> (line 61, output only); the CSS
  module; the decoding of the body bytes as UTF-8 (\<open>JsonParse\<close> starts
  from the decoded text) and the engine's wording of SyntaxError messages; the HTTP transport; React's reconciliation and
  its unmounting of the tree after a render error (the model stops at the
  error thrown), the constant markup (title, placeholder, class names), and
  the development mode double invocation of effects.
\<close>

text \<open>The success body the endpoint is documented to send (spec section 6): a
  JSON object with an optional string \<^verbatim>\<open>final_answer\<close> and an optional
  array of strings \<^verbatim>\<open>sources\<close>.\<close>

definition documented_body :: "jstr option \<Rightarrow> jstr list option \<Rightarrow> js_value" where
  "documented_body fa srcs =
     JObj ((case fa of None \<Rightarrow> [] | Some a \<Rightarrow> [(key_final_answer, JStr a)]) @
           (case srcs of None \<Rightarrow> [] | Some xs \<Rightarrow> [(key_sources, JArr (map JStr xs))]))"

section \<open>Properties across components\<close>

lemma json_value_documented_body: "json_value (documented_body fa srcs)"
  by (cases fa; cases srcs) (simp_all add: documented_body_def list_all_iff)


text \<open>C7: for a query that is not blank, \<^verbatim>\<open>sendQuery\<close> sends exactly one
  request, and the endpoint reading its body gets back the query as typed,
  untrimmed, whatever code units it holds.\<close>

theorem sendQuery_body_carries_query:
  "\<not> js_blank (query s) \<Longrightarrow>
   \<exists>r. snd (sendQuery net s) = [r] \<and> req_method r = js ''POST'' \<and>
        read_query_body (req_body r) = Some (query s)"
  by (simp add: sendQuery_def start_nonblank_eq query_request_def read_query_body_stringify)

theorem sendQuery_body_carries_query_witness:
  "\<exists>r. snd (sendQuery (\<lambda>_. Rejected fetch_failed) (init_state\<lparr>query := js '' \"hi\"\<newline>''\<rparr>)) = [r] \<and>
        req_method r = js ''POST'' \<and> read_query_body (req_body r) = Some (js '' \"hi\"\<newline>'')"
  using sendQuery_body_carries_query
    [of "init_state\<lparr>query := js '' \"hi\"\<newline>''\<rparr>" "\<lambda>_. Rejected fetch_failed"]
  by (simp add: example_defs)

text \<open>C10: a 2xx response whose body is not JSON (an empty 204 body, an HTML
  page) takes the failure path: the answer is the error prefix with the
  SyntaxError's message and isLoading is false; the sources are kept.\<close>

theorem settle_unparsable_body:
  "200 \<le> code \<Longrightarrow> code \<le> 299 \<Longrightarrow> json_parse body = None \<Longrightarrow>
   sendQuery_settle (Resolved (text_response code msg body)) s =
     s\<lparr>answer := JStr (error_text (SyntaxError msg)), isLoading := False\<rparr>"
  by (simp add: text_response_def json_body_def settle_failure_eq request_result_def resp_ok_def)

theorem settle_unparsable_body_witness:
  "sendQuery_settle (Resolved (text_response 204 (js ''Unexpected end of JSON input'') [])) init_state =
     init_state\<lparr>answer := JStr (error_text (SyntaxError (js ''Unexpected end of JSON input''))),
                isLoading := False\<rparr>"
  by (rule settle_unparsable_body) (simp_all add: json_parse_def)

text \<open>C13: in every world reached with a well-shaped backend and the component
  mounted, the rendered button is disabled exactly while a request of this
  instance is in flight: the spec's "isBusy gates the trigger control", as
  the user sees it.\<close>

theorem rendered_button_tracks_request:
  "reachable_shaped w \<Longrightarrow> mounted w \<Longrightarrow>
   \<exists>v. render (st w) = Some (Inr v) \<and> (v_button_disabled v \<longleftrightarrow> own_in_flight w \<noteq> [])"
proof -
  assume r: "reachable_shaped w" and m: "mounted w"
  obtain v where v: "render (st w) = Some (Inr v)"
    using view_safe_render [OF reachable_shaped_view_safe [OF r]] by blast
  have "world_inv w" by (rule reachable_world_inv [OF reachable_shaped_reachable [OF r]])
  with m have "isLoading (st w) \<longleftrightarrow> own_in_flight w \<noteq> []" by (simp add: world_inv_def)
  with v render_button [OF v] show ?thesis by blast
qed

theorem rendered_button_tracks_request_witness:
  "\<exists>v. render (st (run init_world [Mount, Type (js ''hi''), Click])) = Some (Inr v) \<and>
       (v_button_disabled v \<longleftrightarrow> own_in_flight (run init_world [Mount, Type (js ''hi''), Click]) \<noteq> [])"
proof -
  have "reachable_shaped (run init_world [Mount, Type (js ''hi''), Click])"
    by (intro reachable_shaped_run reachable_shaped.init) auto
  moreover have "mounted (run init_world [Mount, Type (js ''hi''), Click])"
    by (simp add: world_defs)
  ultimately show ?thesis by (rule rendered_button_tracks_request)
qed

text \<open>C11: for every 2xx response whose body is the JSON text of a documented
  answer, the settle phase ends with the answer, or the fallback when it is
  absent or empty, the sources, or the empty list when they are absent, and
  isLoading false.\<close>

theorem settle_documented_body:
  "200 \<le> code \<Longrightarrow> code \<le> 299 \<Longrightarrow>
   sendQuery_settle (Resolved (text_response code msg (json_text (documented_body fa srcs)))) s =
     s\<lparr>answer := (case fa of Some a \<Rightarrow> if a = [] then JStr fallback_answer else JStr a
                            | None \<Rightarrow> JStr fallback_answer),
       sources := JArr (case srcs of None \<Rightarrow> [] | Some xs \<Rightarrow> map JStr xs),
       isLoading := False\<rparr>"
  using json_body_json_text [OF json_value_documented_body, of msg fa srcs]
  by (cases fa; cases srcs)
    (simp_all add: text_response_def settle_success_eq request_result_def resp_ok_def
      documented_body_def key_final_answer_def key_sources_def)

theorem settle_documented_body_witness:
  "sendQuery_settle (Resolved (text_response 200 (js ''e'')
      (json_text (documented_body (Some (js ''42'')) None)))) init_state =
   init_state\<lparr>answer := JStr (js ''42''), sources := JArr [], isLoading := False\<rparr>"
  using settle_documented_body [of 200 "js ''e''" "Some (js ''42'')" None init_state] by simp

end
